theory Spec2Isabelle
  imports Complex_Main
begin

section \<open>Floating-point values\<close>

text \<open>
  The optimizer computes on IEEE floating-point numbers, in Python scalars and in tensor
  elements. A value is a finite number, one of the two infinities, or NaN. Finite
  arithmetic is taken to be exact (no rounding, no overflow); the special values follow
  IEEE 754: \<open>0/0\<close>, \<open>inf - inf\<close> and \<open>inf * 0\<close> are NaN, a non-zero finite number divided by
  zero is an infinity, and every ordering comparison with NaN is false. Zero carries no
  sign.
\<close>

datatype fl = Fin real | PInf | NInf | NaN

fun fl_neg :: "fl \<Rightarrow> fl" where
  "fl_neg (Fin x) = Fin (- x)"
| "fl_neg PInf = NInf"
| "fl_neg NInf = PInf"
| "fl_neg NaN = NaN"

fun fl_add :: "fl \<Rightarrow> fl \<Rightarrow> fl" where
  "fl_add (Fin x) (Fin y) = Fin (x + y)"
| "fl_add NaN _ = NaN"
| "fl_add _ NaN = NaN"
| "fl_add PInf NInf = NaN"
| "fl_add NInf PInf = NaN"
| "fl_add PInf _ = PInf"
| "fl_add NInf _ = NInf"
| "fl_add _ PInf = PInf"
| "fl_add _ NInf = NInf"

definition fl_sub :: "fl \<Rightarrow> fl \<Rightarrow> fl" where
  "fl_sub a b = fl_add a (fl_neg b)"

fun fl_mul :: "fl \<Rightarrow> fl \<Rightarrow> fl" where
  "fl_mul (Fin x) (Fin y) = Fin (x * y)"
| "fl_mul NaN _ = NaN"
| "fl_mul _ NaN = NaN"
| "fl_mul PInf (Fin y) = (if y = 0 then NaN else if 0 < y then PInf else NInf)"
| "fl_mul NInf (Fin y) = (if y = 0 then NaN else if 0 < y then NInf else PInf)"
| "fl_mul (Fin x) PInf = (if x = 0 then NaN else if 0 < x then PInf else NInf)"
| "fl_mul (Fin x) NInf = (if x = 0 then NaN else if 0 < x then NInf else PInf)"
| "fl_mul PInf PInf = PInf"
| "fl_mul PInf NInf = NInf"
| "fl_mul NInf PInf = NInf"
| "fl_mul NInf NInf = PInf"

fun fl_div :: "fl \<Rightarrow> fl \<Rightarrow> fl" where
  "fl_div (Fin x) (Fin y) =
     (if y = 0 then (if x = 0 then NaN else if 0 < x then PInf else NInf) else Fin (x / y))"
| "fl_div NaN _ = NaN"
| "fl_div _ NaN = NaN"
| "fl_div (Fin x) PInf = Fin 0"
| "fl_div (Fin x) NInf = Fin 0"
| "fl_div PInf (Fin y) = (if 0 \<le> y then PInf else NInf)"
| "fl_div NInf (Fin y) = (if 0 \<le> y then NInf else PInf)"
| "fl_div PInf PInf = NaN"
| "fl_div PInf NInf = NaN"
| "fl_div NInf PInf = NaN"
| "fl_div NInf NInf = NaN"

fun fl_sqrt :: "fl \<Rightarrow> fl" where
  "fl_sqrt (Fin x) = (if x < 0 then NaN else Fin (sqrt x))"
| "fl_sqrt PInf = PInf"
| "fl_sqrt NInf = NaN"
| "fl_sqrt NaN = NaN"

fun fl_less :: "fl \<Rightarrow> fl \<Rightarrow> bool" where
  "fl_less (Fin x) (Fin y) = (x < y)"
| "fl_less NaN _ = False"
| "fl_less _ NaN = False"
| "fl_less PInf _ = False"
| "fl_less _ NInf = False"
| "fl_less NInf _ = True"
| "fl_less _ PInf = True"

fun fl_le :: "fl \<Rightarrow> fl \<Rightarrow> bool" where
  "fl_le (Fin x) (Fin y) = (x \<le> y)"
| "fl_le NaN _ = False"
| "fl_le _ NaN = False"
| "fl_le NInf _ = True"
| "fl_le _ PInf = True"
| "fl_le PInf _ = False"
| "fl_le _ NInf = False"

fun fl_pow :: "fl \<Rightarrow> nat \<Rightarrow> fl" where
  "fl_pow x 0 = Fin 1"
| "fl_pow x (Suc n) = fl_mul x (fl_pow x n)"

section \<open>Explained ratio and rank growth\<close>

text \<open>
  \<^verbatim>\<open>torch.var\<close> of all the elements of a tensor, with Bessel's correction (the default):
  the sum of the squared deviations from the mean, divided by \<open>max 0 (n - 1)\<close>. On one
  element or none the divisor is zero and the result is NaN.
\<close>

definition fl_sum :: "fl list \<Rightarrow> fl" where
  "fl_sum xs = foldr fl_add xs (Fin 0)"

definition fl_mean :: "fl list \<Rightarrow> fl" where
  "fl_mean xs = fl_div (fl_sum xs) (Fin (real (length xs)))"

definition torch_var :: "fl list \<Rightarrow> fl" where
  "torch_var xs =
     fl_div (fl_sum (map (\<lambda>x. fl_mul (fl_sub x (fl_mean xs)) (fl_sub x (fl_mean xs))) xs))
            (Fin (real (length xs - 1)))"

text \<open>
  \<^verbatim>\<open>compute_explained_ratio(s_max, s)\<close> (lines 188-191): \<open>s\<close> is the one-dimensional tensor
  of singular values. The slice assignment \<^verbatim>\<open>s_current[s_max:] = 0\<close> zeroes the entries
  from index \<open>s_max\<close> on; when \<open>s_max\<close> is at or past the end the slice is empty and
  nothing is written (no error is raised).
\<close>

definition compute_explained_ratio :: "nat \<Rightarrow> fl list \<Rightarrow> fl" where
  "compute_explained_ratio s_max s =
     (let s_current = take s_max s @ map (\<lambda>_. Fin 0) (drop s_max s)
      in fl_sub (Fin 1) (fl_div (torch_var (map2 fl_sub s s_current)) (torch_var s)))"

text \<open>The two attributes set once by the constructor (lines 77-78).\<close>

definition rank_buffer :: nat where
  "rank_buffer = 100"

definition explained_ratio_threshold :: fl where
  "explained_ratio_threshold = Fin (9 / 10)"

text \<open>
  The rank-growth loop (lines 123-124):
  \<^verbatim>\<open>while self.compute_explained_ratio(curr_rank, s) < self.explained_ratio_threshold: curr_rank += 1\<close>.
  The comparison of a NaN ratio with the threshold is false, which ends the loop.
\<close>

function rank_growth :: "nat \<Rightarrow> fl list \<Rightarrow> nat" where
  "rank_growth curr_rank s =
     (if fl_less (compute_explained_ratio curr_rank s) explained_ratio_threshold
      then rank_growth (curr_rank + 1) s
      else curr_rank)"
  by pat_completeness auto

text \<open>
  Termination: once the candidate index has reached the number of singular values, nothing
  is zeroed, the difference \<open>s - s_current\<close> holds only zeros (or NaN where \<open>s\<close> is not
  finite), its variance is zero or NaN, and the ratio is \<open>1\<close> or NaN: not below the threshold.
\<close>

definition zero_or_nan :: "fl \<Rightarrow> bool" where
  "zero_or_nan x = (x = Fin 0 \<or> x = NaN)"

lemma zero_or_nan_add: "zero_or_nan a \<Longrightarrow> zero_or_nan b \<Longrightarrow> zero_or_nan (fl_add a b)"
  by (auto simp: zero_or_nan_def)

lemma zero_or_nan_sub: "zero_or_nan a \<Longrightarrow> zero_or_nan b \<Longrightarrow> zero_or_nan (fl_sub a b)"
  by (auto simp: zero_or_nan_def fl_sub_def)

lemma zero_or_nan_mul: "zero_or_nan a \<Longrightarrow> zero_or_nan b \<Longrightarrow> zero_or_nan (fl_mul a b)"
  by (auto simp: zero_or_nan_def)

lemma zero_or_nan_div: "zero_or_nan a \<Longrightarrow> zero_or_nan (fl_div a b)"
  by (cases b) (auto simp: zero_or_nan_def)

lemma zero_or_nan_self_sub: "zero_or_nan (fl_sub x x)"
  by (cases x) (auto simp: zero_or_nan_def fl_sub_def)

lemma zero_or_nan_sum: "list_all zero_or_nan xs \<Longrightarrow> zero_or_nan (fl_sum xs)"
  unfolding fl_sum_def
  by (induction xs) (auto simp: zero_or_nan_add, simp add: zero_or_nan_def)

lemma zero_or_nan_var: "list_all zero_or_nan xs \<Longrightarrow> zero_or_nan (torch_var xs)"
  unfolding torch_var_def fl_mean_def
  by (intro zero_or_nan_div zero_or_nan_sum)
     (simp add: list_all_iff zero_or_nan_mul zero_or_nan_sub zero_or_nan_div zero_or_nan_sum)

lemma one_minus_zero_or_nan: "zero_or_nan d \<Longrightarrow> fl_sub (Fin 1) d \<in> {Fin 1, NaN}"
  by (auto simp: zero_or_nan_def fl_sub_def)

lemma self_diff_zero_or_nan: "list_all zero_or_nan (map2 fl_sub s s)"
  by (induction s) (simp_all add: zero_or_nan_self_sub)

lemma ratio_past_end:
  "length s \<le> k \<Longrightarrow>
     compute_explained_ratio k s = Fin 1 \<or> compute_explained_ratio k s = NaN"
proof -
  assume "length s \<le> k"
  then have cur: "take k s @ map (\<lambda>_. Fin 0) (drop k s) = s"
    by simp
  have "zero_or_nan (fl_div (torch_var (map2 fl_sub s s)) (torch_var s))"
    by (intro zero_or_nan_div zero_or_nan_var self_diff_zero_or_nan)
  then have "fl_sub (Fin 1) (fl_div (torch_var (map2 fl_sub s s)) (torch_var s)) \<in> {Fin 1, NaN}"
    by (rule one_minus_zero_or_nan)
  then show ?thesis
    unfolding compute_explained_ratio_def Let_def cur by simp
qed

lemma ratio_below_threshold_in_range:
  "fl_less (compute_explained_ratio k s) explained_ratio_threshold \<Longrightarrow> k < length s"
  using ratio_past_end [of s k]
  by (cases "k < length s") (auto simp: explained_ratio_threshold_def)

termination rank_growth
  by (relation "measure (\<lambda>(k, s). length s - k)")
     (auto dest: ratio_below_threshold_in_range)

declare rank_growth.simps [simp del]

section \<open>Errors, tensors and Python scalars\<close>

text \<open>
  The exceptions the code can raise, by their Python class, with the leading words of the
  message. Those of the constructor are \<open>ValueError\<close>; the sparse-gradient rejection of
  line 104 is a \<open>RuntimeError\<close>; tensor indexing past the number of axes is an
  \<open>IndexError\<close>; a shape mismatch in a tensor operation is a \<open>RuntimeError\<close>.
\<close>

datatype error =
    ValueError string
  | RuntimeError string
  | IndexError string
  | ZeroDivisionError string

text \<open>
  A dense tensor: its shape and its elements in row-major order. The element type (the
  \<^verbatim>\<open>dtype\<close>) is not modelled, so the upcast of lines 118-119 is the identity.
\<close>

record tensor =
  shape :: "nat list"
  data :: "fl list"

text \<open>The gradient slot of a parameter: \<^verbatim>\<open>None\<close>, a sparse tensor, or a dense one.\<close>

datatype grad = NoGrad | SparseGrad | DenseGrad tensor

definition zeros_like :: "tensor \<Rightarrow> tensor" where
  "zeros_like t = \<lparr>shape = shape t, data = replicate (prod_list (shape t)) (Fin 0)\<rparr>"

text \<open>The entry at row \<open>i\<close> and column \<open>j\<close> of a tensor with two axes.\<close>

definition at2 :: "tensor \<Rightarrow> nat \<Rightarrow> nat \<Rightarrow> fl" where
  "at2 t i j = data t ! (i * (shape t ! 1) + j)"

text \<open>\<^verbatim>\<open>t.size(dim=d)\<close>: an \<open>IndexError\<close> when the tensor has no axis \<open>d\<close>.\<close>

definition size_dim :: "tensor \<Rightarrow> nat \<Rightarrow> error + nat" where
  "size_dim t d =
     (if d < length (shape t) then Inr (shape t ! d)
      else Inl (IndexError ''Dimension out of range''))"

text \<open>
  \<^verbatim>\<open>grad[:k, :]\<close> (line 117): two indices need two axes, otherwise \<open>IndexError\<close>; the
  row slice is clamped to the rows there are.
\<close>

definition slice_rows :: "nat \<Rightarrow> tensor \<Rightarrow> error + tensor" where
  "slice_rows k t =
     (case shape t of
        d0 # d1 # ds \<Rightarrow>
          Inr \<lparr>shape = min k d0 # d1 # ds,
               data = take (min k d0 * prod_list (d1 # ds)) (data t)\<rparr>
      | _ \<Rightarrow> Inl (IndexError ''too many indices for tensor''))"

text \<open>
  \<^verbatim>\<open>F.pad(t, (0, d), value=0)\<close> appends \<open>d\<close> zeros at the end of the last axis;
  \<^verbatim>\<open>F.pad(t, (0, 0, 0, d), value=0)\<close> appends \<open>d\<close> zero rows at the end of the axis before
  the last. A tensor with too few axes for the padding tuple is refused.
\<close>

definition pad_last :: "nat \<Rightarrow> tensor \<Rightarrow> error + tensor" where
  "pad_last d t =
     (case rev (shape t) of
        c # pre \<Rightarrow>
          Inr \<lparr>shape = rev pre @ [c + d],
               data = map (\<lambda>j. if j mod (c + d) < c
                                then data t ! (j div (c + d) * c + j mod (c + d))
                                else Fin 0)
                          [0..<prod_list pre * (c + d)]\<rparr>
      | [] \<Rightarrow> Inl (RuntimeError ''Padding length too large''))"

definition pad_second_last :: "nat \<Rightarrow> tensor \<Rightarrow> error + tensor" where
  "pad_second_last d t =
     (case rev (shape t) of
        c # r # pre \<Rightarrow>
          Inr \<lparr>shape = rev pre @ [r + d, c],
               data = map (\<lambda>j. if j mod ((r + d) * c) < r * c
                                then data t ! (j div ((r + d) * c) * (r * c) + j mod ((r + d) * c))
                                else Fin 0)
                          [0..<prod_list pre * ((r + d) * c)]\<rparr>
      | _ \<Rightarrow> Inl (RuntimeError ''Padding length too large''))"

text \<open>
  Broadcasting: shapes are aligned at their last axes; two sizes agree when they are equal
  or one of them is 1. \<open>expand target sh xs\<close> repeats the elements \<open>xs\<close> of shape \<open>sh\<close>
  (already padded with leading 1s to the length of \<open>target\<close>) to the shape \<open>target\<close>.
\<close>

fun bshape_rev :: "nat list \<Rightarrow> nat list \<Rightarrow> nat list option" where
  "bshape_rev [] ys = Some ys"
| "bshape_rev xs [] = Some xs"
| "bshape_rev (x # xs) (y # ys) =
     (if x = y \<or> y = 1 then map_option ((#) x) (bshape_rev xs ys)
      else if x = 1 then map_option ((#) y) (bshape_rev xs ys)
      else None)"

definition broadcast_shapes :: "nat list \<Rightarrow> nat list \<Rightarrow> nat list option" where
  "broadcast_shapes a b = map_option rev (bshape_rev (rev a) (rev b))"

fun expand :: "nat list \<Rightarrow> nat list \<Rightarrow> fl list \<Rightarrow> fl list" where
  "expand (d # ds) (e # es) xs =
     (if e = d
      then concat (map (\<lambda>i. expand ds es (take (prod_list es) (drop (i * prod_list es) xs))) [0..<d])
      else concat (replicate d (expand ds es xs)))"
| "expand _ _ xs = xs"

definition broadcast_to :: "nat list \<Rightarrow> tensor \<Rightarrow> fl list" where
  "broadcast_to target t =
     expand target (replicate (length target - length (shape t)) 1 @ shape t) (data t)"

text \<open>
  An in-place operation \<^verbatim>\<open>t.op_(g)\<close> keeps the shape of \<open>t\<close>: \<open>g\<close> must broadcast
  to exactly that shape, otherwise a \<open>RuntimeError\<close> is raised and \<open>t\<close> is untouched.
\<close>

definition inplace :: "(fl \<Rightarrow> fl \<Rightarrow> fl) \<Rightarrow> tensor \<Rightarrow> tensor \<Rightarrow> error + tensor" where
  "inplace f t g =
     (if broadcast_shapes (shape t) (shape g) = Some (shape t)
      then Inr (t\<lparr>data := map2 f (data t) (broadcast_to (shape t) g)\<rparr>)
      else Inl (RuntimeError ''output shape does not match the broadcast shape''))"

definition mul_scalar :: "fl \<Rightarrow> tensor \<Rightarrow> tensor" where
  "mul_scalar a t = t\<lparr>data := map (\<lambda>x. fl_mul x a) (data t)\<rparr>"

text \<open>\<^verbatim>\<open>t.add_(g, alpha=a)\<close> is \<open>t + a * g\<close>; \<^verbatim>\<open>t.addcmul_(g, g, value=v)\<close> is \<open>t + v * g * g\<close>.\<close>

definition add_alpha :: "fl \<Rightarrow> tensor \<Rightarrow> tensor \<Rightarrow> error + tensor" where
  "add_alpha a t g = inplace (\<lambda>x y. fl_add x (fl_mul a y)) t g"

definition addcmul :: "fl \<Rightarrow> tensor \<Rightarrow> tensor \<Rightarrow> error + tensor" where
  "addcmul v t g = inplace (\<lambda>x y. fl_add x (fl_mul v (fl_mul y y))) t g"

text \<open>\<^verbatim>\<open>a / b\<close> on tensors: out of place, on the common broadcast shape.\<close>

definition tensor_div :: "tensor \<Rightarrow> tensor \<Rightarrow> error + tensor" where
  "tensor_div a b =
     (case broadcast_shapes (shape a) (shape b) of
        None \<Rightarrow> Inl (RuntimeError ''The size of tensor a must match the size of tensor b'')
      | Some sh \<Rightarrow> Inr \<lparr>shape = sh, data = map2 fl_div (broadcast_to sh a) (broadcast_to sh b)\<rparr>)"

text \<open>
  Python scalars: \<^verbatim>\<open>a / b\<close> raises \<open>ZeroDivisionError\<close> on a zero divisor, and
  \<^verbatim>\<open>math.sqrt\<close> raises \<open>ValueError\<close> on a negative argument.
\<close>

definition py_div :: "fl \<Rightarrow> fl \<Rightarrow> error + fl" where
  "py_div a b =
     (if b = Fin 0 then Inl (ZeroDivisionError ''float division by zero'') else Inr (fl_div a b))"

fun math_sqrt :: "fl \<Rightarrow> error + fl" where
  "math_sqrt (Fin x) = (if x < 0 then Inl (ValueError ''math domain error'') else Inr (Fin (sqrt x)))"
| "math_sqrt PInf = Inr PInf"
| "math_sqrt NInf = Inl (ValueError ''math domain error'')"
| "math_sqrt NaN = Inr NaN"

definition tensor_sqrt :: "tensor \<Rightarrow> tensor" where
  "tensor_sqrt t = t\<lparr>data := map fl_sqrt (data t)\<rparr>"

definition add_scalar :: "fl \<Rightarrow> tensor \<Rightarrow> tensor" where
  "add_scalar a t = t\<lparr>data := map (\<lambda>x. fl_add x a) (data t)\<rparr>"

section \<open>Parameter groups, optimizer state and the external components\<close>

type_synonym pid = nat

text \<open>
  A parameter group is a dictionary. The keys every group has after construction are the
  hyperparameters; a projection group has the key \<^verbatim>\<open>"rank"\<close> as well, together with the
  projector's settings (read at line 129). \<open>galore g = None\<close> is \<^verbatim>\<open>"rank" not in group\<close>.
\<close>

record galore_cfg =
  rank :: nat
  update_proj_gap :: nat
  scale :: fl
  proj_type :: string

record group =
  params :: "pid list"
  lr :: fl
  betas :: "fl \<times> fl"
  eps :: fl
  weight_decay :: fl
  correct_bias :: bool
  galore :: "galore_cfg option"

text \<open>
  A projector object: the rank it was constructed with (read back as \<^verbatim>\<open>.rank\<close> at line 128)
  and its own state, which this optimizer never inspects.
\<close>

record 'p projector =
  proj_rank :: nat
  proj_obj :: 'p

text \<open>
  The per-parameter dictionary \<^verbatim>\<open>self.state[p]\<close>: the keys \<^verbatim>\<open>"step"\<close>, \<^verbatim>\<open>"projector"\<close>
  and the pair \<^verbatim>\<open>"exp_avg"\<close>, \<^verbatim>\<open>"exp_avg_sq"\<close>, which are only ever stored together
  (lines 136 and 138, 145 and 146). \<open>None\<close> is an absent key; the empty dictionary that the
  first access creates has all three absent.
\<close>

record 'p param_state =
  st_step :: "nat option"
  st_projector :: "'p projector option"
  st_moments :: "(tensor \<times> tensor) option"

record parameter =
  p_data :: tensor
  p_grad :: grad

text \<open>
  The optimizer object, and with it the parameter tensors it mutates in place.
  \<open>param_ranks\<close> is the Rank Table and \<open>current_explained_ratios\<close> the Explained-Ratio
  Table, both indexed by the position of a parameter in its group.
\<close>

record 'p optimizer =
  param_groups :: "group list"
  state :: "pid \<Rightarrow> 'p param_state"
  param_ranks :: "nat list"
  current_explained_ratios :: "fl list"
  tensors :: "pid \<Rightarrow> parameter"

text \<open>
  The components the optimizer calls and that are not part of the source file, taken as
  parameters. \<open>svdvals\<close> is \<^verbatim>\<open>torch.linalg.svdvals\<close> on the sliced gradient, a matrix,
  returning its spectrum as a one-dimensional tensor (for a gradient with more than two
  axes PyTorch returns one spectrum per matrix of the batch; the model has a single
  spectrum). \<open>new_projector\<close>, \<open>project\<close> and \<open>project_back\<close> are the constructor and
  the two methods of \<^verbatim>\<open>GaLoreProjector\<close>: \<open>project\<close> takes the gradient and the step
  counter and may change the projector's own state. The calls of \<open>svdvals\<close>,
  \<open>project\<close> and \<open>project_back\<close> may raise.
\<close>

record 'p env =
  svdvals :: "tensor \<Rightarrow> error + fl list"
  new_projector :: "nat \<Rightarrow> galore_cfg \<Rightarrow> 'p"
  project :: "'p projector \<Rightarrow> tensor \<Rightarrow> nat \<Rightarrow> error + (tensor \<times> 'p)"
  project_back :: "'p projector \<Rightarrow> tensor \<Rightarrow> error + tensor"

section \<open>Construction\<close>

text \<open>
  The groups as the caller passes them: the parameters, the hyperparameters the caller
  chose to override for this group, and the projection settings if any.
\<close>

record group_arg =
  a_params :: "pid list"
  a_lr :: "fl option"
  a_betas :: "(fl \<times> fl) option"
  a_eps :: "fl option"
  a_weight_decay :: "fl option"
  a_correct_bias :: "bool option"
  a_galore :: "galore_cfg option"

record defaults =
  d_lr :: fl
  d_betas :: "fl \<times> fl"
  d_eps :: fl
  d_weight_decay :: fl
  d_correct_bias :: bool

definition add_param_group :: "defaults \<Rightarrow> group_arg \<Rightarrow> group" where
  "add_param_group d a =
     \<lparr>params = a_params a,
      lr = (case a_lr a of None \<Rightarrow> d_lr d | Some x \<Rightarrow> x),
      betas = (case a_betas a of None \<Rightarrow> d_betas d | Some x \<Rightarrow> x),
      eps = (case a_eps a of None \<Rightarrow> d_eps d | Some x \<Rightarrow> x),
      weight_decay = (case a_weight_decay a of None \<Rightarrow> d_weight_decay d | Some x \<Rightarrow> x),
      correct_bias = (case a_correct_bias a of None \<Rightarrow> d_correct_bias d | Some x \<Rightarrow> x),
      galore = a_galore a\<rparr>"

fun groups_disjoint :: "pid list list \<Rightarrow> bool" where
  "groups_disjoint [] = True"
| "groups_disjoint (ps # rest) =
     (list_all (\<lambda>qs. list_all (\<lambda>p. p \<notin> set qs) ps) rest \<and> groups_disjoint rest)"

text \<open>
  The base class constructor \<^verbatim>\<open>super().__init__(params, defaults)\<close> (line 65), as PyTorch
  documents it: it refuses an empty list and a parameter listed in two groups, and gives
  every group the defaults for the keys it does not set.
\<close>

definition optimizer_init :: "group_arg list \<Rightarrow> defaults \<Rightarrow> error + group list" where
  "optimizer_init args d =
     (if args = [] then Inl (ValueError ''optimizer got an empty parameter list'')
      else if \<not> groups_disjoint (map a_params args)
      then Inl (ValueError ''some parameters appear in more than one parameter group'')
      else Inr (map (add_param_group d) args))"

text \<open>Lines 67-70: the last group that has the key \<^verbatim>\<open>"rank"\<close>.\<close>

definition find_galore_group :: "group list \<Rightarrow> group option" where
  "find_galore_group gs = foldl (\<lambda>acc g. if galore g \<noteq> None then Some g else acc) None gs"

definition empty_state :: "'p param_state" where
  "empty_state = \<lparr>st_step = None, st_projector = None, st_moments = None\<rparr>"

text \<open>
  \<^verbatim>\<open>__init__\<close> (lines 38-78). The deprecation warning and the version check do not
  affect the result. The comparisons are Python's: \<^verbatim>\<open>lr < 0.0\<close> is false for NaN,
  \<^verbatim>\<open>0.0 <= b < 1.0\<close> is false for NaN.
\<close>

definition init ::
  "(pid \<Rightarrow> parameter) \<Rightarrow> group_arg list \<Rightarrow> fl \<Rightarrow> fl \<times> fl \<Rightarrow> fl \<Rightarrow> fl \<Rightarrow> bool \<Rightarrow> error + 'p optimizer"
where
  "init ts params_arg lr_arg betas_arg eps_arg weight_decay_arg correct_bias_arg =
     (if fl_less lr_arg (Fin 0) then Inl (ValueError ''Invalid learning rate'')
      else if \<not> (fl_le (Fin 0) (fst betas_arg) \<and> fl_less (fst betas_arg) (Fin 1))
      then Inl (ValueError ''Invalid beta parameter'')
      else if \<not> (fl_le (Fin 0) (snd betas_arg) \<and> fl_less (snd betas_arg) (Fin 1))
      then Inl (ValueError ''Invalid beta parameter'')
      else if \<not> fl_le (Fin 0) eps_arg then Inl (ValueError ''Invalid epsilon value'')
      else
        (case optimizer_init params_arg
                \<lparr>d_lr = lr_arg, d_betas = betas_arg, d_eps = eps_arg,
                 d_weight_decay = weight_decay_arg, d_correct_bias = correct_bias_arg\<rparr> of
           Inl e \<Rightarrow> Inl e
         | Inr gs \<Rightarrow>
             (case find_galore_group gs of
                None \<Rightarrow> Inl (ValueError ''Did not provide galore params when initializing optimizer'')
              | Some gg \<Rightarrow>
                  Inr \<lparr>param_groups = gs,
                       state = (\<lambda>_. empty_state),
                       param_ranks = map (\<lambda>_. 2) (params gg),
                       current_explained_ratios = map (\<lambda>_. Fin 0) (params gg),
                       tensors = ts\<rparr>)))"

text \<open>The hyperparameters that pass the four checks of lines 56-63.\<close>

definition valid_hyper :: "fl \<Rightarrow> fl \<Rightarrow> fl \<Rightarrow> fl \<Rightarrow> bool" where
  "valid_hyper l b1 b2 e =
     (\<not> fl_less l (Fin 0)
      \<and> fl_le (Fin 0) b1 \<and> fl_less b1 (Fin 1)
      \<and> fl_le (Fin 0) b2 \<and> fl_less b2 (Fin 1)
      \<and> fl_le (Fin 0) e)"

section \<open>One optimization step\<close>

text \<open>
  Rank estimation (lines 116-126) for one gradient and its current rank: the leading
  \<open>curr_rank + rank_buffer\<close> rows, their singular values, the rank-growth loop, and the
  explained ratio at the rank the loop stopped at.
\<close>

definition estimate_rank :: "'p env \<Rightarrow> tensor \<Rightarrow> nat \<Rightarrow> error + (nat \<times> fl)" where
  "estimate_rank env grad curr_rank =
     (case slice_rows (curr_rank + rank_buffer) grad of
        Inl e \<Rightarrow> Inl e
      | Inr matrix \<Rightarrow>
          (case svdvals env matrix of
             Inl e \<Rightarrow> Inl e
           | Inr s \<Rightarrow>
               (let new_rank = rank_growth curr_rank s
                in Inr (new_rank, compute_explained_ratio new_rank s))))"

text \<open>
  What the visit of one parameter can read and write: that parameter's state dictionary,
  its tensor, and the two tables. An exception leaves the writes made before it in place,
  so every phase returns the data it has reached together with its outcome.
\<close>

record 'p visit =
  v_state :: "'p param_state"
  v_data :: tensor
  v_ranks :: "nat list"
  v_ratios :: "fl list"

text \<open>Lines 108-109, and the read of \<^verbatim>\<open>state["step"]\<close> after them.\<close>

definition init_step :: "'p param_state \<Rightarrow> 'p param_state" where
  "init_step st = (case st_step st of None \<Rightarrow> st\<lparr>st_step := Some 0\<rparr> | Some _ \<Rightarrow> st)"

definition get_step :: "'p param_state \<Rightarrow> nat" where
  "get_step st = (case st_step st of None \<Rightarrow> 0 | Some n \<Rightarrow> n)"

text \<open>
  Lines 116-131 for a group with the key \<^verbatim>\<open>"rank"\<close>: the table reads and writes raise
  \<open>IndexError\<close> when the position \<open>i\<close> is past the end of the table; the projector is
  replaced when there is none or its rank differs from the new one; the gradient is
  projected. On success the projected gradient and the projector in use are returned.
\<close>

definition galore_phase ::
  "'p env \<Rightarrow> galore_cfg \<Rightarrow> nat \<Rightarrow> tensor \<Rightarrow> 'p visit \<Rightarrow> 'p visit \<times> (error + tensor \<times> 'p projector)"
where
  "galore_phase env cfg i grad v =
     (if \<not> i < length (v_ranks v) then (v, Inl (IndexError ''list index out of range''))
      else
        (case estimate_rank env grad (v_ranks v ! i) of
           Inl e \<Rightarrow> (v, Inl e)
         | Inr (new_rank, ratio) \<Rightarrow>
             if \<not> i < length (v_ratios v)
             then (v, Inl (IndexError ''list assignment index out of range''))
             else
               (let v1 = v\<lparr>v_ratios := (v_ratios v)[i := ratio],
                           v_ranks := (v_ranks v)[i := new_rank]\<rparr>;
                    st = v_state v1;
                    fresh = \<lparr>proj_rank = new_rank, proj_obj = new_projector env new_rank cfg\<rparr>;
                    pr = (case st_projector st of
                            None \<Rightarrow> fresh
                          | Some old \<Rightarrow> if new_rank \<noteq> proj_rank old then fresh else old)
                in case project env pr grad (get_step st) of
                     Inl e \<Rightarrow> (v1\<lparr>v_state := st\<lparr>st_projector := Some pr\<rparr>\<rparr>, Inl e)
                   | Inr (low_rank_grad, obj) \<Rightarrow>
                       (v1\<lparr>v_state := st\<lparr>st_projector := Some (pr\<lparr>proj_obj := obj\<rparr>)\<rparr>\<rparr>,
                        Inr (low_rank_grad, pr\<lparr>proj_obj := obj\<rparr>)))))"

text \<open>
  Moment-state reconciliation (lines 134-146). \<open>rank_opt\<close> is \<open>None\<close> when the group has
  no key \<^verbatim>\<open>"rank"\<close> and the parameter's entry of the Rank Table otherwise; \<open>grad\<close> is the
  gradient after projection. Without buffers, both are allocated as zeros of the
  gradient's shape. With buffers, in a projection group, the rank dimension is axis 0
  when the gradient has fewer rows than columns and axis 1 otherwise, and both buffers are
  padded at the end of that axis when the rank exceeds the size of \<^verbatim>\<open>exp_avg\<close> along it.
  The result is the pair of buffers, or the exception with the buffers as stored when it
  was raised.
\<close>

definition reconcile ::
  "nat option \<Rightarrow> tensor \<Rightarrow> (tensor \<times> tensor) option
     \<Rightarrow> (error \<times> (tensor \<times> tensor) option) + (tensor \<times> tensor)"
where
  "reconcile rank_opt grad m =
     (case m of
        None \<Rightarrow> Inr (zeros_like grad, zeros_like grad)
      | Some (exp_avg, exp_avg_sq) \<Rightarrow>
          (case rank_opt of
             None \<Rightarrow> Inr (exp_avg, exp_avg_sq)
           | Some r \<Rightarrow>
               (case size_dim grad 0 of
                  Inl e \<Rightarrow> Inl (e, m)
                | Inr g0 \<Rightarrow>
                    (case size_dim grad 1 of
                       Inl e \<Rightarrow> Inl (e, m)
                     | Inr g1 \<Rightarrow>
                         (let rank_dim = (if g0 < g1 then 0 else 1) in
                          case size_dim exp_avg rank_dim of
                            Inl e \<Rightarrow> Inl (e, m)
                          | Inr n \<Rightarrow>
                              if n < r then
                                (let rank_diff = r - n;
                                     pad = (if rank_dim = 0 then pad_second_last rank_diff
                                            else pad_last rank_diff)
                                 in case pad exp_avg of
                                      Inl e \<Rightarrow> Inl (e, m)
                                    | Inr exp_avg' \<Rightarrow>
                                        (case pad exp_avg_sq of
                                           Inl e \<Rightarrow> Inl (e, Some (exp_avg', exp_avg_sq))
                                         | Inr exp_avg_sq' \<Rightarrow> Inr (exp_avg', exp_avg_sq')))
                              else Inr (exp_avg, exp_avg_sq))))))"

text \<open>
  The buffers the state dictionary holds once lines 134-146 have run, whether they
  returned or raised.
\<close>

definition stored_moments ::
  "nat option \<Rightarrow> tensor \<Rightarrow> (tensor \<times> tensor) option \<Rightarrow> (tensor \<times> tensor) option"
where
  "stored_moments rank_opt grad m =
     (case reconcile rank_opt grad m of Inl (e, m') \<Rightarrow> m' | Inr p \<Rightarrow> Some p)"

text \<open>
  The step size (lines 159-163), with \<open>t\<close> the value of \<^verbatim>\<open>state["step"]\<close> at that point.
\<close>

definition step_size :: "group \<Rightarrow> nat \<Rightarrow> error + fl" where
  "step_size g t =
     (if correct_bias g then
        (let bias_correction1 = fl_sub (Fin 1) (fl_pow (fst (betas g)) t);
             bias_correction2 = fl_sub (Fin 1) (fl_pow (snd (betas g)) t)
         in case math_sqrt bias_correction2 of
              Inl e \<Rightarrow> Inl e
            | Inr rt \<Rightarrow> py_div (fl_mul (lr g) rt) bias_correction1)
      else Inr (lr g))"

text \<open>Lines 182-183: decoupled weight decay, \<^verbatim>\<open>p.add_(p, alpha=(-lr * weight_decay))\<close>.\<close>

definition decay :: "group \<Rightarrow> tensor \<Rightarrow> tensor" where
  "decay g p =
     (if fl_less (Fin 0) (weight_decay g)
      then p\<lparr>data := map (\<lambda>x. fl_add x (fl_mul (fl_mul (fl_neg (lr g)) (weight_decay g)) x)) (data p)\<rparr>
      else p)"

definition put_moments :: "(tensor \<times> tensor) option \<Rightarrow> 'p visit \<Rightarrow> 'p visit" where
  "put_moments m v = v\<lparr>v_state := (v_state v)\<lparr>st_moments := m\<rparr>\<rparr>"

text \<open>
  Lines 148-183: the counter is incremented first (line 151); the two buffers are updated
  in place; the step size is computed from the incremented counter; the normalized
  gradient is projected back when the group is a projection group (\<open>pr_opt\<close> is then the
  projector in use); the parameter is updated in place, and decayed.
\<close>

definition update_phase ::
  "'p env \<Rightarrow> group \<Rightarrow> 'p projector option \<Rightarrow> tensor \<Rightarrow> tensor \<times> tensor \<Rightarrow> 'p visit
     \<Rightarrow> 'p visit \<times> error option"
where
  "update_phase env g pr_opt grad m v =
     (let exp_avg = fst m; exp_avg_sq = snd m;
          beta1 = fst (betas g); beta2 = snd (betas g);
          t = get_step (v_state v) + 1;
          v1 = v\<lparr>v_state := (v_state v)\<lparr>st_step := Some t\<rparr>\<rparr>;
          exp_avg1 = mul_scalar beta1 exp_avg
      in case add_alpha (fl_sub (Fin 1) beta1) exp_avg1 grad of
           Inl e \<Rightarrow> (put_moments (Some (exp_avg1, exp_avg_sq)) v1, Some e)
         | Inr exp_avg2 \<Rightarrow>
             (let exp_avg_sq1 = mul_scalar beta2 exp_avg_sq
              in case addcmul (fl_sub (Fin 1) beta2) exp_avg_sq1 grad of
                   Inl e \<Rightarrow> (put_moments (Some (exp_avg2, exp_avg_sq1)) v1, Some e)
                 | Inr exp_avg_sq2 \<Rightarrow>
                     (let v2 = put_moments (Some (exp_avg2, exp_avg_sq2)) v1;
                          denom = add_scalar (eps g) (tensor_sqrt exp_avg_sq2)
                      in case step_size g t of
                           Inl e \<Rightarrow> (v2, Some e)
                         | Inr ss \<Rightarrow>
                             (case tensor_div exp_avg2 denom of
                                Inl e \<Rightarrow> (v2, Some e)
                              | Inr norm_grad \<Rightarrow>
                                  (case (case pr_opt of
                                           None \<Rightarrow> Inr norm_grad
                                         | Some pr \<Rightarrow> project_back env pr norm_grad) of
                                     Inl e \<Rightarrow> (v2, Some e)
                                   | Inr full_grad \<Rightarrow>
                                       (case add_alpha (fl_neg ss) (v_data v2) full_grad of
                                          Inl e \<Rightarrow> (v2, Some e)
                                        | Inr p1 \<Rightarrow> (v2\<lparr>v_data := decay g p1\<rparr>, None)))))))"

text \<open>Lines 134-183 together: reconciliation, then the update.\<close>

definition moments_phase ::
  "'p env \<Rightarrow> group \<Rightarrow> nat option \<Rightarrow> 'p projector option \<Rightarrow> tensor \<Rightarrow> 'p visit
     \<Rightarrow> 'p visit \<times> error option"
where
  "moments_phase env g rank_opt pr_opt grad v =
     (case reconcile rank_opt grad (st_moments (v_state v)) of
        Inl (e, m) \<Rightarrow> (put_moments m v, Some e)
      | Inr m \<Rightarrow> update_phase env g pr_opt grad m (put_moments (Some m) v))"

text \<open>Lines 106-183: the visit of a parameter with a dense gradient, at position \<open>i\<close> of group \<open>g\<close>.\<close>

definition visit ::
  "'p env \<Rightarrow> group \<Rightarrow> nat \<Rightarrow> tensor \<Rightarrow> 'p visit \<Rightarrow> 'p visit \<times> error option"
where
  "visit env g i grad v0 =
     (let v = v0\<lparr>v_state := init_step (v_state v0)\<rparr> in
      case galore g of
        None \<Rightarrow> moments_phase env g None None grad v
      | Some cfg \<Rightarrow>
          (case galore_phase env cfg i grad v of
             (v1, Inl e) \<Rightarrow> (v1, Some e)
           | (v1, Inr (low_rank_grad, pr)) \<Rightarrow>
               moments_phase env g (Some (v_ranks v1 ! i)) (Some pr) low_rank_grad v1))"

text \<open>
  Lines 100-183, the body of the inner loop: a parameter without gradient is skipped, a
  sparse gradient raises, a dense one is visited and what the visit reached is stored.
\<close>

definition step_param ::
  "'p env \<Rightarrow> group \<Rightarrow> nat \<Rightarrow> pid \<Rightarrow> 'p optimizer \<Rightarrow> 'p optimizer \<times> error option"
where
  "step_param env g i p w =
     (case p_grad (tensors w p) of
        NoGrad \<Rightarrow> (w, None)
      | SparseGrad \<Rightarrow> (w, Some (RuntimeError ''Adam does not support sparse gradients''))
      | DenseGrad grad \<Rightarrow>
          (case visit env g i grad
                  \<lparr>v_state = state w p, v_data = p_data (tensors w p),
                   v_ranks = param_ranks w, v_ratios = current_explained_ratios w\<rparr> of
             (v, r) \<Rightarrow>
               (w\<lparr>state := (state w)(p := v_state v),
                  param_ranks := v_ranks v,
                  current_explained_ratios := v_ratios v,
                  tensors := (tensors w)(p := (tensors w p)\<lparr>p_data := v_data v\<rparr>)\<rparr>, r)))"

text \<open>
  The two loops of \<^verbatim>\<open>step\<close> (lines 98-99), stopping at the first exception, and
  \<^verbatim>\<open>step\<close> itself, called without a closure. The result is the optimizer as the call
  leaves it and the exception raised, if any.
\<close>

fun step_params ::
  "'p env \<Rightarrow> group \<Rightarrow> nat \<Rightarrow> pid list \<Rightarrow> 'p optimizer \<Rightarrow> 'p optimizer \<times> error option"
where
  "step_params env g i [] w = (w, None)"
| "step_params env g i (p # ps) w =
     (case step_param env g i p w of
        (w', Some e) \<Rightarrow> (w', Some e)
      | (w', None) \<Rightarrow> step_params env g (i + 1) ps w')"

fun step_groups :: "'p env \<Rightarrow> group list \<Rightarrow> 'p optimizer \<Rightarrow> 'p optimizer \<times> error option" where
  "step_groups env [] w = (w, None)"
| "step_groups env (g # gs) w =
     (case step_params env g 0 (params g) w of
        (w', Some e) \<Rightarrow> (w', Some e)
      | (w', None) \<Rightarrow> step_groups env gs w')"

definition step :: "'p env \<Rightarrow> 'p optimizer \<Rightarrow> 'p optimizer \<times> error option" where
  "step env w = step_groups env (param_groups w) w"

section \<open>Concrete inputs for the examples\<close>

text \<open>
  An environment whose \<open>svdvals\<close> returns the given spectrum and whose projector returns
  the gradient as it is, in both directions.
\<close>

definition spectrum_env :: "fl list \<Rightarrow> unit env" where
  "spectrum_env s =
     \<lparr>svdvals = (\<lambda>_. Inr s),
      new_projector = (\<lambda>_ _. ()),
      project = (\<lambda>pr g t. Inr (g, ())),
      project_back = (\<lambda>pr g. Inr g)\<rparr>"

text \<open>The 3 by 3 identity matrix; its singular values are 1, 1, 1.\<close>

definition identity3 :: tensor where
  "identity3 =
     \<lparr>shape = [3, 3],
      data = [Fin 1, Fin 0, Fin 0, Fin 0, Fin 1, Fin 0, Fin 0, Fin 0, Fin 1]\<rparr>"

text \<open>The diagonal matrix with the entries 5, 4, 3, 2, 1, which are its singular values.\<close>

definition diag5 :: tensor where
  "diag5 =
     \<lparr>shape = [5, 5],
      data = [Fin 5, Fin 0, Fin 0, Fin 0, Fin 0,
              Fin 0, Fin 4, Fin 0, Fin 0, Fin 0,
              Fin 0, Fin 0, Fin 3, Fin 0, Fin 0,
              Fin 0, Fin 0, Fin 0, Fin 2, Fin 0,
              Fin 0, Fin 0, Fin 0, Fin 0, Fin 1]\<rparr>"

text \<open>
  A projection group of three parameters with the default hyperparameters: parameter 0
  has no gradient, parameter 1 a dense 2 by 3 gradient with singular values 2 and 1,
  parameter 2 a sparse gradient. \<open>demo\<close> is the optimizer right after construction.
\<close>

definition demo_cfg :: galore_cfg where
  "demo_cfg = \<lparr>rank = 2, update_proj_gap = 200, scale = Fin (1 / 4), proj_type = ''std''\<rparr>"

definition demo_arg :: group_arg where
  "demo_arg =
     \<lparr>a_params = [0, 1, 2], a_lr = None, a_betas = None, a_eps = None,
      a_weight_decay = None, a_correct_bias = None, a_galore = Some demo_cfg\<rparr>"

definition demo_grad :: tensor where
  "demo_grad = \<lparr>shape = [2, 3], data = [Fin 2, Fin 0, Fin 0, Fin 0, Fin 1, Fin 0]\<rparr>"

definition demo_data :: tensor where
  "demo_data = \<lparr>shape = [2, 3], data = [Fin 1, Fin 1, Fin 1, Fin 1, Fin 1, Fin 1]\<rparr>"

definition demo_tensors :: "pid \<Rightarrow> parameter" where
  "demo_tensors p =
     (if p = 0 then \<lparr>p_data = demo_data, p_grad = NoGrad\<rparr>
      else if p = 1 then \<lparr>p_data = demo_data, p_grad = DenseGrad demo_grad\<rparr>
      else \<lparr>p_data = demo_data, p_grad = SparseGrad\<rparr>)"

definition demo_group :: group where
  "demo_group =
     \<lparr>params = [0, 1, 2], lr = Fin (1 / 1000), betas = (Fin (9 / 10), Fin (999 / 1000)),
      eps = Fin (1 / 1000000), weight_decay = Fin 0, correct_bias = True,
      galore = Some demo_cfg\<rparr>"

definition demo :: "unit optimizer" where
  "demo =
     \<lparr>param_groups = [demo_group],
      state = (\<lambda>_. empty_state),
      param_ranks = [2, 2, 2],
      current_explained_ratios = [Fin 0, Fin 0, Fin 0],
      tensors = demo_tensors\<rparr>"

text \<open>
  What the visit of parameter 1 of \<open>demo\<close> has reached after lines 106-138: the counter
  is 0, the projector has rank 2, both buffers are zeros of the gradient's shape, and the
  explained ratio 1 is in the table.
\<close>

definition demo_visit :: "unit visit" where
  "demo_visit =
     \<lparr>v_state = \<lparr>st_step = Some 0, st_projector = Some \<lparr>proj_rank = 2, proj_obj = ()\<rparr>,
                  st_moments = Some (zeros_like demo_grad, zeros_like demo_grad)\<rparr>,
      v_data = demo_data, v_ranks = [2, 2, 2], v_ratios = [Fin 0, Fin 1, Fin 0]\<rparr>"

text \<open>
  A projection group with one parameter whose gradient has a single row (its only
  singular value is 1), and the optimizer right after construction.
\<close>

definition row_grad :: tensor where
  "row_grad = \<lparr>shape = [1, 5], data = [Fin 1, Fin 0, Fin 0, Fin 0, Fin 0]\<rparr>"

definition row_data :: tensor where
  "row_data = \<lparr>shape = [1, 5], data = [Fin 1, Fin 1, Fin 1, Fin 1, Fin 1]\<rparr>"

definition row_group :: group where
  "row_group =
     \<lparr>params = [0], lr = Fin (1 / 1000), betas = (Fin (9 / 10), Fin (999 / 1000)),
      eps = Fin (1 / 1000000), weight_decay = Fin 0, correct_bias = True,
      galore = Some demo_cfg\<rparr>"

definition row_demo :: "unit optimizer" where
  "row_demo =
     \<lparr>param_groups = [row_group],
      state = (\<lambda>_. empty_state),
      param_ranks = [2],
      current_explained_ratios = [Fin 0],
      tensors = (\<lambda>_. \<lparr>p_data = row_data, p_grad = DenseGrad row_grad\<rparr>)\<rparr>"

text \<open>
  Two buffers of 2 rows and 4 columns, and a projected gradient of 3 rows and 4 columns
  (as after the rank has grown from 2 to 3).
\<close>

definition old_exp_avg :: tensor where
  "old_exp_avg =
     \<lparr>shape = [2, 4], data = [Fin 1, Fin 2, Fin 3, Fin 4, Fin 5, Fin 6, Fin 7, Fin 8]\<rparr>"

definition old_exp_avg_sq :: tensor where
  "old_exp_avg_sq =
     \<lparr>shape = [2, 4], data = [Fin 1, Fin 4, Fin 9, Fin 16, Fin 25, Fin 36, Fin 49, Fin 64]\<rparr>"

definition grown_grad :: tensor where
  "grown_grad = \<lparr>shape = [3, 4], data = replicate 12 (Fin 1)\<rparr>"

text \<open>
  What the visit of the one-row parameter has reached after lines 106-138: the spectrum
  has one value, so its variance and the explained ratio are NaN and the rank stays 2.
\<close>

definition row_visit :: "unit visit" where
  "row_visit =
     \<lparr>v_state = \<lparr>st_step = Some 0, st_projector = Some \<lparr>proj_rank = 2, proj_obj = ()\<rparr>,
                  st_moments = Some (zeros_like row_grad, zeros_like row_grad)\<rparr>,
      v_data = row_data, v_ranks = [2], v_ratios = [NaN]\<rparr>"

text \<open>
  The example optimizer at a later step: parameter 1 has been visited once, its counter is
  1, and it has a projector of rank 2 and two buffers of the gradient's shape.
\<close>

definition later_visit :: "unit visit" where
  "later_visit = demo_visit\<lparr>v_state := (v_state demo_visit)\<lparr>st_step := Some 1\<rparr>\<rparr>"

definition demo_later :: "unit optimizer" where
  "demo_later = demo\<lparr>state := (state demo)(1 := v_state later_visit)\<rparr>"

section \<open>The rank-growth loop\<close>

lemma rank_growth_step:
  "fl_less (compute_explained_ratio k s) explained_ratio_threshold \<Longrightarrow>
     rank_growth k s = rank_growth (Suc k) s"
  by (subst rank_growth.simps) simp

lemma rank_growth_stop:
  "\<not> fl_less (compute_explained_ratio k s) explained_ratio_threshold \<Longrightarrow> rank_growth k s = k"
  by (subst rank_growth.simps) simp

lemma rank_growth_ge: "k \<le> rank_growth k s"
proof (induction k s rule: rank_growth.induct)
  case (1 k s)
  show ?case
  proof (cases "fl_less (compute_explained_ratio k s) explained_ratio_threshold")
    case True
    with 1 show ?thesis by (simp add: rank_growth_step)
  next
    case False
    then show ?thesis by (simp add: rank_growth_stop)
  qed
qed

lemma rank_growth_le: "rank_growth k s \<le> max k (length s)"
proof (induction k s rule: rank_growth.induct)
  case (1 k s)
  show ?case
  proof (cases "fl_less (compute_explained_ratio k s) explained_ratio_threshold")
    case True
    then have "k < length s" by (rule ratio_below_threshold_in_range)
    with True 1 show ?thesis by (simp add: rank_growth_step)
  next
    case False
    then show ?thesis by (simp add: rank_growth_stop)
  qed
qed

lemma rank_growth_exit:
  "\<not> fl_less (compute_explained_ratio (rank_growth k s) s) explained_ratio_threshold"
proof (induction k s rule: rank_growth.induct)
  case (1 k s)
  show ?case
  proof (cases "fl_less (compute_explained_ratio k s) explained_ratio_threshold")
    case True
    with 1 show ?thesis by (simp add: rank_growth_step)
  next
    case False
    then show ?thesis by (simp add: rank_growth_stop)
  qed
qed

lemma rank_growth_below:
  "k \<le> j \<Longrightarrow> j < rank_growth k s \<Longrightarrow>
     fl_less (compute_explained_ratio j s) explained_ratio_threshold"
proof (induction k s rule: rank_growth.induct)
  case (1 k s)
  show ?case
  proof (cases "fl_less (compute_explained_ratio k s) explained_ratio_threshold")
    case below: True
    show ?thesis
    proof (cases "j = k")
      case True
      with below show ?thesis by simp
    next
      case False
      with 1 below show ?thesis by (simp add: rank_growth_step)
    qed
  next
    case False
    with 1 show ?thesis by (simp add: rank_growth_stop)
  qed
qed

lemma not_less_threshold:
  "\<not> fl_less x explained_ratio_threshold \<Longrightarrow> fl_le explained_ratio_threshold x \<or> x = NaN"
  by (cases x) (auto simp: explained_ratio_threshold_def)

lemmas ratio_eval =
  compute_explained_ratio_def torch_var_def fl_mean_def fl_sum_def fl_sub_def

lemma ratio_ones_2: "compute_explained_ratio 2 [Fin 1, Fin 1, Fin 1] = NInf"
  by (simp add: ratio_eval)

lemma ratio_ones_3: "compute_explained_ratio 3 [Fin 1, Fin 1, Fin 1] = NaN"
  by (simp add: ratio_eval)

lemma rank_growth_ones: "rank_growth 2 [Fin 1, Fin 1, Fin 1] = 3"
proof -
  have "rank_growth 2 [Fin 1, Fin 1, Fin 1] = rank_growth (Suc 2) [Fin 1, Fin 1, Fin 1]"
    by (rule rank_growth_step) (simp add: ratio_ones_2 explained_ratio_threshold_def)
  also have "Suc 2 = 3" by simp
  also have "rank_growth 3 [Fin 1, Fin 1, Fin 1] = 3"
    by (rule rank_growth_stop) (simp add: ratio_ones_3)
  finally show ?thesis .
qed

text \<open>
  C1, as stated, fails. The gradient is the 3 by 3 identity matrix and the current rank is
  2. The explained ratio is below the threshold at index 2 (it is minus infinity, the
  variance of the spectrum being zero) and is NaN at index 3, the number of singular
  values: the threshold is met at no index within the spectrum. Rank estimation raises
  nothing; it returns rank 3 with the ratio NaN.
\<close>

theorem rank_growth_no_error_counterexample:
  "\<not> fl_le explained_ratio_threshold (compute_explained_ratio 2 [Fin 1, Fin 1, Fin 1])
   \<and> \<not> fl_le explained_ratio_threshold (compute_explained_ratio 3 [Fin 1, Fin 1, Fin 1])
   \<and> estimate_rank (spectrum_env [Fin 1, Fin 1, Fin 1]) identity3 2 = Inr (3, NaN)"
  by (simp add: ratio_ones_2 ratio_ones_3 rank_growth_ones explained_ratio_threshold_def
        estimate_rank_def slice_rows_def spectrum_env_def identity3_def)

text \<open>
  C1, amended. The rank-growth loop raises no error and always ends. From rank
  \<open>curr_rank\<close> on a spectrum \<open>s\<close> it stops at the first candidate index at which the
  explained ratio is not below the threshold; that index is at most
  \<open>max curr_rank (length s)\<close>; the ratio there meets the threshold or is NaN. Whenever
  the row slice and \<open>svdvals\<close> succeed, rank estimation returns that rank and ratio.
\<close>

theorem rank_growth_ends_without_error:
  "curr_rank \<le> rank_growth curr_rank s
   \<and> rank_growth curr_rank s \<le> max curr_rank (length s)
   \<and> (\<forall>k. curr_rank \<le> k \<and> k < rank_growth curr_rank s \<longrightarrow>
          fl_less (compute_explained_ratio k s) explained_ratio_threshold)
   \<and> (fl_le explained_ratio_threshold (compute_explained_ratio (rank_growth curr_rank s) s)
        \<or> compute_explained_ratio (rank_growth curr_rank s) s = NaN)
   \<and> (slice_rows (curr_rank + rank_buffer) grad = Inr matrix \<and> svdvals env matrix = Inr s \<longrightarrow>
        estimate_rank env grad curr_rank =
          Inr (rank_growth curr_rank s, compute_explained_ratio (rank_growth curr_rank s) s))"
proof -
  have "estimate_rank env grad curr_rank =
          Inr (rank_growth curr_rank s, compute_explained_ratio (rank_growth curr_rank s) s)"
    if "slice_rows (curr_rank + rank_buffer) grad = Inr matrix" "svdvals env matrix = Inr s"
    using that by (simp add: estimate_rank_def Let_def)
  then show ?thesis
    using rank_growth_ge [of curr_rank s] rank_growth_le [of curr_rank s]
      rank_growth_below [of curr_rank _ s]
      not_less_threshold [OF rank_growth_exit [of curr_rank s]]
    by blast
qed

lemma ratio_five_2: "compute_explained_ratio 2 [Fin 5, Fin 4, Fin 3, Fin 2, Fin 1] = Fin (8 / 25)"
  by (simp add: ratio_eval)

lemma ratio_five_3: "compute_explained_ratio 3 [Fin 5, Fin 4, Fin 3, Fin 2, Fin 1] = Fin (17 / 25)"
  by (simp add: ratio_eval)

lemma ratio_five_4: "compute_explained_ratio 4 [Fin 5, Fin 4, Fin 3, Fin 2, Fin 1] = Fin (23 / 25)"
  by (simp add: ratio_eval)

lemma rank_growth_five: "rank_growth 2 [Fin 5, Fin 4, Fin 3, Fin 2, Fin 1] = 4"
proof -
  let ?s = "[Fin 5, Fin 4, Fin 3, Fin 2, Fin 1]"
  have "rank_growth 2 ?s = rank_growth (Suc 2) ?s"
    by (rule rank_growth_step) (simp add: ratio_five_2 explained_ratio_threshold_def)
  also have "Suc 2 = 3" by simp
  also have "rank_growth 3 ?s = rank_growth (Suc 3) ?s"
    by (rule rank_growth_step) (simp add: ratio_five_3 explained_ratio_threshold_def)
  also have "Suc 3 = 4" by simp
  also have "rank_growth 4 ?s = 4"
    by (rule rank_growth_stop) (simp add: ratio_five_4 explained_ratio_threshold_def)
  finally show ?thesis .
qed

theorem rank_growth_ends_without_error_witness:
  "rank_growth 2 [Fin 5, Fin 4, Fin 3, Fin 2, Fin 1] = 4
   \<and> fl_less (compute_explained_ratio 3 [Fin 5, Fin 4, Fin 3, Fin 2, Fin 1]) explained_ratio_threshold
   \<and> estimate_rank (spectrum_env [Fin 5, Fin 4, Fin 3, Fin 2, Fin 1]) diag5 2
       = Inr (4, compute_explained_ratio 4 [Fin 5, Fin 4, Fin 3, Fin 2, Fin 1])"
proof -
  let ?s = "[Fin 5, Fin 4, Fin 3, Fin 2, Fin 1]"
  let ?m = "\<lparr>shape = [5, 5], data = take 25 (data diag5)\<rparr>"
  note th = rank_growth_ends_without_error [of 2 ?s diag5 ?m "spectrum_env ?s"]
  have slice: "slice_rows (2 + rank_buffer) diag5 = Inr ?m"
    by (simp add: slice_rows_def diag5_def rank_buffer_def)
  have svd: "svdvals (spectrum_env ?s) ?m = Inr ?s"
    by (simp add: spectrum_env_def)
  from th have below:
    "\<forall>k. 2 \<le> k \<and> k < rank_growth 2 ?s \<longrightarrow> fl_less (compute_explained_ratio k ?s) explained_ratio_threshold"
    by blast
  have "fl_less (compute_explained_ratio 3 ?s) explained_ratio_threshold"
    using below rank_growth_five by simp
  moreover from th slice svd have "estimate_rank (spectrum_env ?s) diag5 2
      = Inr (rank_growth 2 ?s, compute_explained_ratio (rank_growth 2 ?s) ?s)"
    by blast
  ultimately show ?thesis
    by (simp add: rank_growth_five)
qed

section \<open>Rejection of gradients by their shape\<close>

lemma slice_few_axes:
  "length (shape grad) < 2 \<Longrightarrow> slice_rows k grad = Inl (IndexError ''too many indices for tensor'')"
  by (auto simp: slice_rows_def split: list.splits)

lemma ratio_empty: "compute_explained_ratio 2 [] = NaN"
  by (simp add: ratio_eval)

lemma rank_growth_empty: "rank_growth 2 [] = 2"
  by (rule rank_growth_stop) (simp add: ratio_empty)

text \<open>
  C8, as stated, fails. A gradient with zero rows and three columns has two axes, so the
  row slice succeeds and the slice is handed to \<open>svdvals\<close>, which returns the empty
  spectrum. The variance of nothing is NaN, the loop ends at once, and rank estimation
  returns rank 2 with the ratio NaN: no error is raised.
\<close>

theorem degenerate_gradient_counterexample:
  "estimate_rank (spectrum_env []) \<lparr>shape = [0, 3], data = []\<rparr> 2 = Inr (2, NaN)"
  by (simp add: estimate_rank_def slice_rows_def spectrum_env_def rank_growth_empty ratio_empty)

text \<open>
  C8, amended. A gradient with fewer than two axes is rejected before any singular value
  is computed: the row slice raises an \<open>IndexError\<close>, whatever \<open>svdvals\<close> would do. A
  gradient with exactly two axes, a degenerate one with zero rows or zero columns
  included, is never rejected for its shape: its clamped row slice is handed to
  \<open>svdvals\<close>, and rank estimation raises only what \<open>svdvals\<close> raises.
\<close>

theorem gradient_shape_handling:
  "(length (shape grad) < 2 \<longrightarrow>
      estimate_rank env grad curr_rank = Inl (IndexError ''too many indices for tensor''))
   \<and> (shape grad = [m, n] \<longrightarrow>
        estimate_rank env grad curr_rank =
          (case svdvals env \<lparr>shape = [min (curr_rank + rank_buffer) m, n],
                             data = take (min (curr_rank + rank_buffer) m * n) (data grad)\<rparr> of
             Inl e \<Rightarrow> Inl e
           | Inr s \<Rightarrow> Inr (rank_growth curr_rank s,
                           compute_explained_ratio (rank_growth curr_rank s) s)))"
proof (intro conjI impI)
  assume "length (shape grad) < 2"
  then show "estimate_rank env grad curr_rank = Inl (IndexError ''too many indices for tensor'')"
    by (simp add: estimate_rank_def slice_few_axes)
next
  assume "shape grad = [m, n]"
  then show "estimate_rank env grad curr_rank =
          (case svdvals env \<lparr>shape = [min (curr_rank + rank_buffer) m, n],
                             data = take (min (curr_rank + rank_buffer) m * n) (data grad)\<rparr> of
             Inl e \<Rightarrow> Inl e
           | Inr s \<Rightarrow> Inr (rank_growth curr_rank s,
                           compute_explained_ratio (rank_growth curr_rank s) s))"
    by (simp add: estimate_rank_def slice_rows_def Let_def split: sum.splits)
qed

theorem gradient_shape_handling_witness:
  "estimate_rank (spectrum_env [Fin 2, Fin 1]) \<lparr>shape = [6], data = replicate 6 (Fin 1)\<rparr> 2
     = Inl (IndexError ''too many indices for tensor'')
   \<and> estimate_rank (spectrum_env []) \<lparr>shape = [2, 0], data = []\<rparr> 2 = Inr (2, NaN)"
proof -
  have "estimate_rank (spectrum_env [Fin 2, Fin 1]) \<lparr>shape = [6], data = replicate 6 (Fin 1)\<rparr> 2
     = Inl (IndexError ''too many indices for tensor'')"
    using gradient_shape_handling
      [of "\<lparr>shape = [6], data = replicate 6 (Fin 1)\<rparr>" "spectrum_env [Fin 2, Fin 1]" 2]
    by simp
  moreover have "estimate_rank (spectrum_env []) \<lparr>shape = [2, 0], data = []\<rparr> 2 = Inr (2, NaN)"
    using gradient_shape_handling [of "\<lparr>shape = [2, 0], data = []\<rparr>" "spectrum_env []" 2 2 0]
    by (simp add: spectrum_env_def rank_growth_empty ratio_empty)
  ultimately show ?thesis by simp
qed

section \<open>The step size\<close>

lemma fl_pow_Fin: "fl_pow (Fin b) t = Fin (b ^ t)"
  by (induction t) simp_all

lemma step_size_plain: "\<not> correct_bias g \<Longrightarrow> step_size g t = Inr (lr g)"
  by (simp add: step_size_def)

lemma step_size_corrected:
  assumes "correct_bias g" "betas g = (Fin b1, Fin b2)" "0 \<le> b1" "b1 < 1" "0 \<le> b2" "b2 < 1"
    "lr g = Fin l" "0 < t"
  shows "step_size g t = Inr (Fin (l * sqrt (1 - b2 ^ t) / (1 - b1 ^ t)))"
proof -
  have "b1 ^ t < 1" using assms by (simp add: power_less_one_iff)
  moreover have "b2 ^ t \<le> 1" using assms by (simp add: power_le_one)
  ultimately show ?thesis
    using assms by (simp add: step_size_def fl_pow_Fin fl_sub_def py_div_def)
qed

lemma update_phase_step_size:
  assumes "update_phase env g pr_opt grad m v = (v', None)"
  shows "\<exists>ss full_grad p1.
           step_size g (get_step (v_state v) + 1) = Inr ss
         \<and> add_alpha (fl_neg ss) (v_data v) full_grad = Inr p1
         \<and> v_data v' = decay g p1
         \<and> st_step (v_state v') = Some (get_step (v_state v) + 1)"
  using assms
  by (auto simp: update_phase_def Let_def put_moments_def split: sum.splits option.splits) blast+

text \<open>
  C9. Without bias correction the step size is the group's learning rate, whatever the
  step count. With bias correction, betas in \<open>[0, 1)\<close> and a finite learning rate \<open>l\<close>,
  the step size at counter \<open>t > 0\<close> is \<open>l * (sqrt (1 - b2 ^ t) / (1 - b1 ^ t))\<close>, which at
  \<open>t = 1\<close> is \<open>l * (sqrt (1 - b2) / (1 - b1))\<close>. In a visit that completes, the step size
  applied to the parameter is the one of the counter after its increment, which is the
  counter the state holds afterwards.
\<close>

theorem step_size_bias_correction:
  "(\<not> correct_bias g \<longrightarrow> step_size g t = Inr (lr g))
   \<and> (correct_bias g \<and> betas g = (Fin b1, Fin b2) \<and> 0 \<le> b1 \<and> b1 < 1 \<and> 0 \<le> b2 \<and> b2 < 1
        \<and> lr g = Fin l \<longrightarrow>
          (0 < t \<longrightarrow> step_size g t = Inr (Fin (l * (sqrt (1 - b2 ^ t) / (1 - b1 ^ t)))))
        \<and> step_size g 1 = Inr (Fin (l * (sqrt (1 - b2) / (1 - b1)))))
   \<and> (update_phase env g pr_opt grad m v = (v', None) \<longrightarrow>
        (\<exists>ss full_grad p1.
           step_size g (get_step (v_state v) + 1) = Inr ss
         \<and> add_alpha (fl_neg ss) (v_data v) full_grad = Inr p1
         \<and> v_data v' = decay g p1
         \<and> st_step (v_state v') = Some (get_step (v_state v) + 1)))"
proof (intro conjI impI)
  assume "\<not> correct_bias g"
  then show "step_size g t = Inr (lr g)" by (rule step_size_plain)
next
  assume a: "correct_bias g \<and> betas g = (Fin b1, Fin b2) \<and> 0 \<le> b1 \<and> b1 < 1 \<and> 0 \<le> b2 \<and> b2 < 1
        \<and> lr g = Fin l"
  { assume "0 < t"
    with a show "step_size g t = Inr (Fin (l * (sqrt (1 - b2 ^ t) / (1 - b1 ^ t))))"
      by (simp add: step_size_corrected) }
  from a show "step_size g 1 = Inr (Fin (l * (sqrt (1 - b2) / (1 - b1))))"
    using step_size_corrected [of g b1 b2 l 1] by simp
next
  assume "update_phase env g pr_opt grad m v = (v', None)"
  then show "\<exists>ss full_grad p1.
           step_size g (get_step (v_state v) + 1) = Inr ss
         \<and> add_alpha (fl_neg ss) (v_data v) full_grad = Inr p1
         \<and> v_data v' = decay g p1
         \<and> st_step (v_state v') = Some (get_step (v_state v) + 1)"
    by (rule update_phase_step_size)
qed

section \<open>The example optimizer, evaluated\<close>

lemma init_demo:
  "init demo_tensors [demo_arg] (Fin (1 / 1000)) (Fin (9 / 10), Fin (999 / 1000))
      (Fin (1 / 1000000)) (Fin 0) True = Inr demo"
  by (simp add: init_def optimizer_init_def add_param_group_def find_galore_group_def
      demo_def demo_arg_def demo_group_def)

lemma ratio_demo: "compute_explained_ratio 2 [Fin 2, Fin 1] = Fin 1"
  by (simp add: ratio_eval)

lemma rank_growth_demo: "rank_growth 2 [Fin 2, Fin 1] = 2"
  by (rule rank_growth_stop) (simp add: ratio_demo explained_ratio_threshold_def)

lemma estimate_demo: "estimate_rank (spectrum_env [Fin 2, Fin 1]) demo_grad 2 = Inr (2, Fin 1)"
  by (simp add: estimate_rank_def slice_rows_def spectrum_env_def demo_grad_def rank_growth_demo
      ratio_demo)

lemma galore_phase_demo:
  "galore_phase (spectrum_env [Fin 2, Fin 1]) demo_cfg (Suc 0) demo_grad
     \<lparr>v_state = init_step empty_state, v_data = demo_data, v_ranks = [2, 2, 2],
      v_ratios = [Fin 0, Fin 0, Fin 0]\<rparr>
   = (demo_visit\<lparr>v_state := (v_state demo_visit)\<lparr>st_moments := None\<rparr>\<rparr>,
      Inr (demo_grad, \<lparr>proj_rank = 2, proj_obj = ()\<rparr>))"
  by (simp add: galore_phase_def estimate_demo init_step_def empty_state_def get_step_def Let_def
      demo_visit_def)
     (simp add: spectrum_env_def)

lemma galore_demo: "galore demo_group = Some demo_cfg"
  by (simp add: demo_group_def)

lemmas tensor_eval =
  zeros_like_def mul_scalar_def add_alpha_def addcmul_def inplace_def broadcast_shapes_def
  broadcast_to_def tensor_sqrt_def add_scalar_def tensor_div_def decay_def upt_rec
  numeral_2_eq_2 numeral_3_eq_3

lemma update_demo:
  "snd (update_phase (spectrum_env [Fin 2, Fin 1]) demo_group (Some \<lparr>proj_rank = 2, proj_obj = ()\<rparr>)
     demo_grad (zeros_like demo_grad, zeros_like demo_grad) demo_visit) = None"
  by (simp add: update_phase_def Let_def demo_group_def demo_grad_def demo_data_def demo_visit_def
      put_moments_def fl_sub_def step_size_def py_div_def spectrum_env_def get_step_def tensor_eval)

lemma visit_demo:
  "visit (spectrum_env [Fin 2, Fin 1]) demo_group (Suc 0) demo_grad
     \<lparr>v_state = empty_state, v_data = demo_data, v_ranks = [2, 2, 2],
      v_ratios = [Fin 0, Fin 0, Fin 0]\<rparr>
   = update_phase (spectrum_env [Fin 2, Fin 1]) demo_group (Some \<lparr>proj_rank = 2, proj_obj = ()\<rparr>)
       demo_grad (zeros_like demo_grad, zeros_like demo_grad) demo_visit"
  by (simp add: visit_def galore_demo galore_phase_demo moments_phase_def reconcile_def
      put_moments_def demo_visit_def)

theorem step_size_bias_correction_witness:
  "step_size (demo_group\<lparr>correct_bias := False\<rparr>) 7 = Inr (Fin (1 / 1000))
   \<and> step_size demo_group 1 = Inr (Fin (1 / 1000 * (sqrt (1 - 999 / 1000) / (1 - 9 / 10))))
   \<and> st_step (v_state (fst (update_phase (spectrum_env [Fin 2, Fin 1]) demo_group
         (Some \<lparr>proj_rank = 2, proj_obj = ()\<rparr>) demo_grad
         (zeros_like demo_grad, zeros_like demo_grad) demo_visit))) = Some 1"
proof -
  let ?env = "spectrum_env [Fin 2, Fin 1]"
  let ?pr = "Some \<lparr>proj_rank = 2, proj_obj = ()\<rparr>"
  let ?m = "(zeros_like demo_grad, zeros_like demo_grad)"
  let ?run = "update_phase ?env demo_group ?pr demo_grad ?m demo_visit"
  have a: "step_size (demo_group\<lparr>correct_bias := False\<rparr>) 7 = Inr (Fin (1 / 1000))"
    using step_size_bias_correction
      [where g = "demo_group\<lparr>correct_bias := False\<rparr>" and t = 7, THEN conjunct1]
    by (simp add: demo_group_def)
  have b: "step_size demo_group 1 = Inr (Fin (1 / 1000 * (sqrt (1 - 999 / 1000) / (1 - 9 / 10))))"
    using step_size_bias_correction
      [where g = demo_group and ?b1.0 = "9 / 10" and ?b2.0 = "999 / 1000" and l = "1 / 1000",
       THEN conjunct2, THEN conjunct1]
    by (simp add: demo_group_def)
  have "?run = (fst ?run, None)"
    using update_demo by (simp add: prod_eq_iff)
  with step_size_bias_correction
      [where env = ?env and g = demo_group and pr_opt = ?pr and grad = demo_grad and m = ?m
         and v = demo_visit and v' = "fst ?run", THEN conjunct2, THEN conjunct2]
  have "st_step (v_state (fst ?run)) = Some (get_step (v_state demo_visit) + 1)"
    by blast
  then have c: "st_step (v_state (fst ?run)) = Some 1"
    by (simp add: demo_visit_def get_step_def)
  from a b c show ?thesis by simp
qed

section \<open>Construction: what is checked\<close>

lemma find_galore_group_ex:
  "(find_galore_group gs \<noteq> None) = list_ex (\<lambda>g. galore g \<noteq> None) gs"
proof -
  have "(foldl (\<lambda>acc g. if galore g \<noteq> None then Some g else acc) acc gs \<noteq> None)
          = (acc \<noteq> None \<or> list_ex (\<lambda>g. galore g \<noteq> None) gs)" for acc
    by (induction gs arbitrary: acc) auto
  then show ?thesis by (simp add: find_galore_group_def)
qed

lemma galore_add_param_group: "galore (add_param_group d a) = a_galore a"
  by (simp add: add_param_group_def)

lemma find_galore_group_args:
  "(find_galore_group (map (add_param_group d) args) \<noteq> None)
     = list_ex (\<lambda>a. a_galore a \<noteq> None) args"
  by (subst find_galore_group_ex) (simp add: list_ex_iff galore_add_param_group)

text \<open>
  C6, as stated, fails. With a projection group supplied and the other hyperparameters at
  their defaults, construction succeeds for the learning rate 0, which is not strictly
  greater than 0, and for the weight decay -1.
\<close>

theorem zero_lr_negative_decay_accepted:
  "\<not> isl (init demo_tensors [demo_arg] (Fin 0) (Fin (9 / 10), Fin (999 / 1000))
             (Fin (1 / 1000000)) (Fin 0) True :: error + unit optimizer)
   \<and> \<not> isl (init demo_tensors [demo_arg] (Fin (1 / 1000)) (Fin (9 / 10), Fin (999 / 1000))
             (Fin (1 / 1000000)) (Fin (- 1)) True :: error + unit optimizer)"
  by (simp add: init_def optimizer_init_def add_param_group_def find_galore_group_def
      demo_arg_def)

text \<open>
  C6, amended. Construction fails at once with a \<open>ValueError\<close> for a learning rate below
  0, for either beta outside \<open>[0, 1)\<close> and for an epsilon below 0, in that order, before
  the groups are looked at. The learning rate 0 and every weight decay are accepted. With
  hyperparameters that pass these checks construction succeeds exactly when the base
  constructor accepts the groups (there is one, and no parameter is in two of them) and
  some group has the key \<^verbatim>\<open>"rank"\<close>; every failure of construction is a \<open>ValueError\<close>.
\<close>

theorem construction_checks:
  "(fl_less l (Fin 0) \<longrightarrow>
      (init ts args l (b1, b2) e wd cb :: error + 'p optimizer)
        = Inl (ValueError ''Invalid learning rate''))
   \<and> (\<not> fl_less l (Fin 0)
        \<and> \<not> (fl_le (Fin 0) b1 \<and> fl_less b1 (Fin 1) \<and> fl_le (Fin 0) b2 \<and> fl_less b2 (Fin 1)) \<longrightarrow>
      (init ts args l (b1, b2) e wd cb :: error + 'p optimizer)
        = Inl (ValueError ''Invalid beta parameter''))
   \<and> (\<not> fl_less l (Fin 0)
        \<and> fl_le (Fin 0) b1 \<and> fl_less b1 (Fin 1) \<and> fl_le (Fin 0) b2 \<and> fl_less b2 (Fin 1)
        \<and> \<not> fl_le (Fin 0) e \<longrightarrow>
      (init ts args l (b1, b2) e wd cb :: error + 'p optimizer)
        = Inl (ValueError ''Invalid epsilon value''))
   \<and> (valid_hyper l b1 b2 e \<longrightarrow>
        (\<not> isl (init ts args l (b1, b2) e wd cb :: error + 'p optimizer))
          = (args \<noteq> [] \<and> groups_disjoint (map a_params args)
             \<and> list_ex (\<lambda>a. a_galore a \<noteq> None) args))
   \<and> (\<forall>err. (init ts args l (b1, b2) e wd cb :: error + 'p optimizer) = Inl err \<longrightarrow>
          (\<exists>msg. err = ValueError msg))"
proof (intro conjI impI allI)
  assume "fl_less l (Fin 0)"
  then show "(init ts args l (b1, b2) e wd cb :: error + 'p optimizer)
        = Inl (ValueError ''Invalid learning rate'')"
    by (simp add: init_def)
next
  assume "\<not> fl_less l (Fin 0)
        \<and> \<not> (fl_le (Fin 0) b1 \<and> fl_less b1 (Fin 1) \<and> fl_le (Fin 0) b2 \<and> fl_less b2 (Fin 1))"
  then show "(init ts args l (b1, b2) e wd cb :: error + 'p optimizer)
        = Inl (ValueError ''Invalid beta parameter'')"
    by (auto simp: init_def)
next
  assume "\<not> fl_less l (Fin 0)
        \<and> fl_le (Fin 0) b1 \<and> fl_less b1 (Fin 1) \<and> fl_le (Fin 0) b2 \<and> fl_less b2 (Fin 1)
        \<and> \<not> fl_le (Fin 0) e"
  then show "(init ts args l (b1, b2) e wd cb :: error + 'p optimizer)
        = Inl (ValueError ''Invalid epsilon value'')"
    by (simp add: init_def)
next
  assume v: "valid_hyper l b1 b2 e"
  let ?d = "\<lparr>d_lr = l, d_betas = (b1, b2), d_eps = e, d_weight_decay = wd, d_correct_bias = cb\<rparr>"
  show "(\<not> isl (init ts args l (b1, b2) e wd cb :: error + 'p optimizer))
          = (args \<noteq> [] \<and> groups_disjoint (map a_params args)
             \<and> list_ex (\<lambda>a. a_galore a \<noteq> None) args)"
  proof (cases "args \<noteq> [] \<and> groups_disjoint (map a_params args)")
    case False
    with v show ?thesis
      by (auto simp: init_def valid_hyper_def optimizer_init_def)
  next
    case True
    then have oi: "optimizer_init args ?d = Inr (map (add_param_group ?d) args)"
      by (simp add: optimizer_init_def)
    show ?thesis
      using v True find_galore_group_args [of ?d args]
      by (cases "find_galore_group (map (add_param_group ?d) args)")
         (simp_all add: init_def valid_hyper_def oi)
  qed
next
  fix err
  assume "(init ts args l (b1, b2) e wd cb :: error + 'p optimizer) = Inl err"
  then show "\<exists>msg. err = ValueError msg"
    by (auto simp: init_def optimizer_init_def split: if_splits sum.splits option.splits)
qed


theorem construction_checks_witness:
  "(init demo_tensors [demo_arg] (Fin (- 1)) (Fin (9 / 10), Fin (999 / 1000))
       (Fin (1 / 1000000)) (Fin 0) True :: error + unit optimizer)
     = Inl (ValueError ''Invalid learning rate'')
   \<and> (init demo_tensors [demo_arg] (Fin (1 / 1000)) (Fin (9 / 10), Fin 1)
       (Fin (1 / 1000000)) (Fin 0) True :: error + unit optimizer)
     = Inl (ValueError ''Invalid beta parameter'')
   \<and> (init demo_tensors [demo_arg] (Fin (1 / 1000)) (Fin (9 / 10), Fin (999 / 1000))
       (Fin (- 1)) (Fin 0) True :: error + unit optimizer)
     = Inl (ValueError ''Invalid epsilon value'')
   \<and> \<not> isl (init demo_tensors [demo_arg] (Fin (1 / 1000)) (Fin (9 / 10), Fin (999 / 1000))
       (Fin (1 / 1000000)) (Fin 0) True :: error + unit optimizer)"
proof -
  have a: "(init demo_tensors [demo_arg] (Fin (- 1)) (Fin (9 / 10), Fin (999 / 1000))
       (Fin (1 / 1000000)) (Fin 0) True :: error + unit optimizer)
     = Inl (ValueError ''Invalid learning rate'')"
    using construction_checks [where l = "Fin (- 1)", THEN conjunct1] by simp
  have b: "(init demo_tensors [demo_arg] (Fin (1 / 1000)) (Fin (9 / 10), Fin 1)
       (Fin (1 / 1000000)) (Fin 0) True :: error + unit optimizer)
     = Inl (ValueError ''Invalid beta parameter'')"
    using construction_checks
      [where l = "Fin (1 / 1000)" and ?b1.0 = "Fin (9 / 10)" and ?b2.0 = "Fin 1",
       THEN conjunct2, THEN conjunct1]
    by simp
  have c: "(init demo_tensors [demo_arg] (Fin (1 / 1000)) (Fin (9 / 10), Fin (999 / 1000))
       (Fin (- 1)) (Fin 0) True :: error + unit optimizer)
     = Inl (ValueError ''Invalid epsilon value'')"
    using construction_checks
      [where l = "Fin (1 / 1000)" and ?b1.0 = "Fin (9 / 10)" and ?b2.0 = "Fin (999 / 1000)"
         and e = "Fin (- 1)", THEN conjunct2, THEN conjunct2, THEN conjunct1]
    by simp
  have d: "\<not> isl (init demo_tensors [demo_arg] (Fin (1 / 1000)) (Fin (9 / 10), Fin (999 / 1000))
       (Fin (1 / 1000000)) (Fin 0) True :: error + unit optimizer)"
    using construction_checks
      [where l = "Fin (1 / 1000)" and ?b1.0 = "Fin (9 / 10)" and ?b2.0 = "Fin (999 / 1000)"
         and e = "Fin (1 / 1000000)" and args = "[demo_arg]",
       THEN conjunct2, THEN conjunct2, THEN conjunct2, THEN conjunct1]
    by (simp add: valid_hyper_def demo_arg_def)
  from a b c d show ?thesis by simp
qed

section \<open>What a visit writes\<close>

lemma estimate_rank_ge: "estimate_rank env grad r = Inr (k, ratio) \<Longrightarrow> r \<le> k"
  by (auto simp: estimate_rank_def Let_def rank_growth_ge split: sum.splits)

lemma galore_phase_ranks:
  "galore_phase env cfg i grad v = (v1, res) \<Longrightarrow>
     v_ranks v1 = v_ranks v \<or>
     (\<exists>k. v_ranks v ! i \<le> k \<and> i < length (v_ranks v) \<and> v_ranks v1 = (v_ranks v)[i := k])"
  by (auto simp: galore_phase_def Let_def split: sum.splits if_splits prod.splits
      dest: estimate_rank_ge)

lemma galore_phase_ratios:
  "galore_phase env cfg i grad v = (v1, res) \<Longrightarrow>
     v_ratios v1 = v_ratios v \<or> (\<exists>x. v_ratios v1 = (v_ratios v)[i := x])"
  by (auto simp: galore_phase_def Let_def split: sum.splits if_splits prod.splits)

lemma update_phase_tables:
  "update_phase env g pr_opt grad m v = (v', res) \<Longrightarrow>
     v_ranks v' = v_ranks v \<and> v_ratios v' = v_ratios v"
  by (auto simp: update_phase_def Let_def put_moments_def split: sum.splits option.splits)

lemma moments_phase_tables:
  "moments_phase env g rank_opt pr_opt grad v = (v', res) \<Longrightarrow>
     v_ranks v' = v_ranks v \<and> v_ratios v' = v_ratios v"
  by (auto simp: moments_phase_def put_moments_def split: sum.splits prod.splits
      dest!: update_phase_tables)

lemma visit_ranks:
  "visit env g i grad v0 = (v', res) \<Longrightarrow>
     v_ranks v' = v_ranks v0 \<or>
     (\<exists>k. v_ranks v0 ! i \<le> k \<and> i < length (v_ranks v0) \<and> galore g \<noteq> None
          \<and> v_ranks v' = (v_ranks v0)[i := k])"
  by (auto simp: visit_def Let_def split: option.splits sum.splits prod.splits
      dest!: moments_phase_tables galore_phase_ranks)

lemma visit_ratios:
  "visit env g i grad v0 = (v', res) \<Longrightarrow>
     v_ratios v' = v_ratios v0 \<or>
     (\<exists>x. galore g \<noteq> None \<and> v_ratios v' = (v_ratios v0)[i := x])"
  by (auto simp: visit_def Let_def split: option.splits sum.splits prod.splits
      dest!: moments_phase_tables galore_phase_ratios)

lemma step_param_grads:
  "step_param env g i q w = (w', res) \<Longrightarrow> p_grad (tensors w' p) = p_grad (tensors w p)"
  by (auto simp: step_param_def split: grad.splits prod.splits)

lemma step_param_other:
  "step_param env g i q w = (w', res) \<Longrightarrow> p \<noteq> q \<Longrightarrow>
     state w' p = state w p \<and> tensors w' p = tensors w p"
  by (auto simp: step_param_def split: grad.splits prod.splits)

lemma step_param_not_dense:
  "\<forall>t. p_grad (tensors w q) \<noteq> DenseGrad t \<Longrightarrow> fst (step_param env g i q w) = w"
  by (auto simp: step_param_def split: grad.splits prod.splits)

lemma step_param_sparse:
  "p_grad (tensors w q) = SparseGrad \<Longrightarrow>
     step_param env g i q w = (w, Some (RuntimeError ''Adam does not support sparse gradients''))"
  by (simp add: step_param_def)

lemma step_param_none: "p_grad (tensors w q) = NoGrad \<Longrightarrow> step_param env g i q w = (w, None)"
  by (simp add: step_param_def)

lemma step_param_ranks:
  "step_param env g j q w = (w', res) \<Longrightarrow>
     param_ranks w' = param_ranks w \<or>
     (\<exists>k t. param_ranks w ! j \<le> k \<and> j < length (param_ranks w) \<and> galore g \<noteq> None
          \<and> p_grad (tensors w q) = DenseGrad t \<and> param_ranks w' = (param_ranks w)[j := k])"
  by (auto simp: step_param_def split: grad.splits prod.splits dest!: visit_ranks)

lemma step_param_ratios:
  "step_param env g j q w = (w', res) \<Longrightarrow>
     current_explained_ratios w' = current_explained_ratios w \<or>
     (\<exists>x t. galore g \<noteq> None \<and> p_grad (tensors w q) = DenseGrad t
          \<and> current_explained_ratios w' = (current_explained_ratios w)[j := x])"
  by (auto simp: step_param_def split: grad.splits prod.splits dest!: visit_ratios)

lemma step_param_ranks_le:
  "step_param env g j q w = (w', res) \<Longrightarrow> list_all2 (\<le>) (param_ranks w) (param_ranks w')"
  by (drule step_param_ranks) (auto simp: list_all2_conv_all_nth nth_list_update)

section \<open>The two loops\<close>

text \<open>
  Each loop either stops at the first visit that raises or goes on from the optimizer that
  visit left; a property kept by every visit is kept by the loops.
\<close>

lemma step_params_cases:
  assumes "step_params env g j (q # ps) w = (w', res)"
  obtains w1 e where "step_param env g j q w = (w1, Some e)" "w' = w1" "res = Some e"
  | w1 where "step_param env g j q w = (w1, None)" "step_params env g (j + 1) ps w1 = (w', res)"
  using assms by (cases "step_param env g j q w") (auto split: option.splits)

lemma step_groups_cases:
  assumes "step_groups env (g # gs) w = (w', res)"
  obtains w1 e where "step_params env g 0 (params g) w = (w1, Some e)" "w' = w1" "res = Some e"
  | w1 where "step_params env g 0 (params g) w = (w1, None)" "step_groups env gs w1 = (w', res)"
  using assms by (cases "step_params env g 0 (params g) w") (auto split: option.splits)

lemma step_params_ranks_le:
  "step_params env g j ps w = (w', res) \<Longrightarrow> list_all2 (\<le>) (param_ranks w) (param_ranks w')"
proof (induction ps arbitrary: j w)
  case Nil
  then show ?case by (simp add: list_all2_refl)
next
  case (Cons q ps)
  from Cons.prems show ?case
  proof (cases rule: step_params_cases)
    case (1 w1 e)
    then show ?thesis by (simp add: step_param_ranks_le)
  next
    case (2 w1)
    from step_param_ranks_le [OF 2(1)] Cons.IH [OF 2(2)] show ?thesis
      by (rule list_all2_trans [rotated]) simp
  qed
qed

lemma step_groups_ranks_le:
  "step_groups env gs w = (w', res) \<Longrightarrow> list_all2 (\<le>) (param_ranks w) (param_ranks w')"
proof (induction gs arbitrary: w)
  case Nil
  then show ?case by (simp add: list_all2_refl)
next
  case (Cons g gs)
  from Cons.prems show ?case
  proof (cases rule: step_groups_cases)
    case (1 w1 e)
    then show ?thesis by (simp add: step_params_ranks_le)
  next
    case (2 w1)
    from step_params_ranks_le [OF 2(1)] Cons.IH [OF 2(2)] show ?thesis
      by (rule list_all2_trans [rotated]) simp
  qed
qed

lemma init_ranks:
  "init ts args l b e wd cb = Inr w \<Longrightarrow>
     \<exists>gg. find_galore_group (param_groups w) = Some gg
        \<and> param_ranks w = replicate (length (params gg)) 2"
  by (auto simp: init_def map_replicate_const split: if_splits sum.splits option.splits)

text \<open>
  C2. Construction gives the Rank Table one entry per parameter of the projection group,
  each equal to 2. A call of \<^verbatim>\<open>step\<close>, whether it returns or raises, leaves the table
  with the same number of entries, and every entry at least as large as before the call.
\<close>

theorem rank_table_monotone:
  "(init ts args l b e wd cb = Inr w0 \<longrightarrow>
      (\<exists>gg. find_galore_group (param_groups w0) = Some gg
          \<and> param_ranks w0 = replicate (length (params gg)) 2))
   \<and> length (param_ranks (fst (step env w))) = length (param_ranks w)
   \<and> (\<forall>i < length (param_ranks w). param_ranks w ! i \<le> param_ranks (fst (step env w)) ! i)"
proof -
  have "list_all2 (\<le>) (param_ranks w) (param_ranks (fst (step env w)))"
    unfolding step_def by (rule step_groups_ranks_le [OF surjective_pairing])
  then show ?thesis
    using init_ranks [of ts args l b e wd cb w0]
    by (auto simp: list_all2_conv_all_nth)
qed

lemma step_params_grads:
  "step_params env g j ps w = (w', res) \<Longrightarrow> p_grad (tensors w' p) = p_grad (tensors w p)"
proof (induction ps arbitrary: j w)
  case Nil
  then show ?case by simp
next
  case (Cons q ps)
  from Cons.prems show ?case
  proof (cases rule: step_params_cases)
    case (1 w1 e)
    then show ?thesis by (simp add: step_param_grads)
  next
    case (2 w1)
    from step_param_grads [OF 2(1), of p] Cons.IH [OF 2(2)] show ?thesis by simp
  qed
qed

lemma step_param_frame:
  assumes "\<forall>t. p_grad (tensors w p) \<noteq> DenseGrad t" "step_param env g j q w = (w1, r1)"
  shows "state w1 p = state w p \<and> tensors w1 p = tensors w p"
proof (cases "q = p")
  case True
  with assms(1) have "fst (step_param env g j q w) = w" by (simp add: step_param_not_dense)
  with assms(2) show ?thesis by simp
next
  case False
  with assms(2) show ?thesis by (simp add: step_param_other)
qed

lemma step_params_frame:
  assumes "\<forall>t. p_grad (tensors w p) \<noteq> DenseGrad t"
    and "step_params env g j ps w = (w', res)"
  shows "state w' p = state w p \<and> tensors w' p = tensors w p"
  using assms
proof (induction ps arbitrary: j w)
  case Nil
  then show ?case by simp
next
  case (Cons q ps)
  from Cons.prems(2) show ?case
  proof (cases rule: step_params_cases)
    case (1 w1 e)
    with step_param_frame [OF Cons.prems(1) 1(1)] show ?thesis by simp
  next
    case (2 w1)
    note same = step_param_frame [OF Cons.prems(1) 2(1)]
    with Cons.prems(1) have "\<forall>t. p_grad (tensors w1 p) \<noteq> DenseGrad t" by simp
    from Cons.IH [OF this 2(2)] same show ?thesis by simp
  qed
qed

lemma step_params_sparse:
  assumes "p_grad (tensors w p) = SparseGrad" and "p \<in> set ps"
  shows "snd (step_params env g j ps w) \<noteq> None"
  using assms
proof (induction ps arbitrary: j w)
  case Nil
  then show ?case by simp
next
  case (Cons q ps)
  obtain w' res where run: "step_params env g j (q # ps) w = (w', res)"
    by (cases "step_params env g j (q # ps) w")
  from run have "res \<noteq> None"
  proof (cases rule: step_params_cases)
    case (1 w1 e)
    then show ?thesis by simp
  next
    case (2 w1)
    have "q \<noteq> p"
    proof
      assume "q = p"
      with Cons.prems(1) 2(1) show False by (simp add: step_param_sparse)
    qed
    with Cons.prems(2) have mem: "p \<in> set ps" by simp
    from step_param_grads [OF 2(1), of p] Cons.prems(1)
    have "p_grad (tensors w1 p) = SparseGrad" by simp
    from Cons.IH [OF this mem, of "j + 1"] 2(2) show ?thesis by simp
  qed
  with run show ?case by simp
qed


lemma step_groups_grads:
  "step_groups env gs w = (w', res) \<Longrightarrow> p_grad (tensors w' p) = p_grad (tensors w p)"
proof (induction gs arbitrary: w)
  case Nil
  then show ?case by simp
next
  case (Cons g gs)
  from Cons.prems show ?case
  proof (cases rule: step_groups_cases)
    case (1 w1 e)
    then show ?thesis by (simp add: step_params_grads)
  next
    case (2 w1)
    from step_params_grads [OF 2(1), of p] Cons.IH [OF 2(2)] show ?thesis by simp
  qed
qed

lemma step_groups_frame:
  assumes "\<forall>t. p_grad (tensors w p) \<noteq> DenseGrad t"
    and "step_groups env gs w = (w', res)"
  shows "state w' p = state w p \<and> tensors w' p = tensors w p"
  using assms
proof (induction gs arbitrary: w)
  case Nil
  then show ?case by simp
next
  case (Cons g gs)
  from Cons.prems(2) show ?case
  proof (cases rule: step_groups_cases)
    case (1 w1 e)
    with step_params_frame [OF Cons.prems(1) 1(1)] show ?thesis by simp
  next
    case (2 w1)
    note same = step_params_frame [OF Cons.prems(1) 2(1)]
    with Cons.prems(1) have "\<forall>t. p_grad (tensors w1 p) \<noteq> DenseGrad t" by simp
    from Cons.IH [OF this 2(2)] same show ?thesis by simp
  qed
qed

lemma step_groups_sparse:
  assumes "p_grad (tensors w p) = SparseGrad" and "p \<in> set (concat (map params gs))"
  shows "snd (step_groups env gs w) \<noteq> None"
  using assms
proof (induction gs arbitrary: w)
  case Nil
  then show ?case by simp
next
  case (Cons g gs)
  obtain w' res where run: "step_groups env (g # gs) w = (w', res)"
    by (cases "step_groups env (g # gs) w")
  from run have "res \<noteq> None"
  proof (cases rule: step_groups_cases)
    case (1 w1 e)
    then show ?thesis by simp
  next
    case (2 w1)
    have "p \<notin> set (params g)"
    proof
      assume "p \<in> set (params g)"
      from step_params_sparse [OF Cons.prems(1) this, of env g 0] 2(1) show False by simp
    qed
    with Cons.prems(2) have mem: "p \<in> set (concat (map params gs))" by simp
    from step_params_grads [OF 2(1), of p] Cons.prems(1)
    have "p_grad (tensors w1 p) = SparseGrad" by simp
    from Cons.IH [OF this mem] 2(2) show ?thesis by simp
  qed
  with run show ?case by simp
qed

text \<open>
  C7. The visit of a parameter whose gradient is sparse raises the \<open>RuntimeError\<close> of
  line 104 and leaves the whole optimizer, parameters included, as it was. A call of
  \<^verbatim>\<open>step\<close> on groups that hold such a parameter ends in an exception (the loops catch
  nothing), and it leaves that parameter's tensor and its state dictionary unchanged.
\<close>

theorem sparse_gradient_rejected:
  assumes "p_grad (tensors w p) = SparseGrad"
  shows "step_param env g i p w
           = (w, Some (RuntimeError ''Adam does not support sparse gradients''))
    \<and> (p \<in> set (concat (map params (param_groups w))) \<longrightarrow> snd (step env w) \<noteq> None)
    \<and> state (fst (step env w)) p = state w p
    \<and> tensors (fst (step env w)) p = tensors w p"
proof -
  have nd: "\<forall>t. p_grad (tensors w p) \<noteq> DenseGrad t" using assms by simp
  have "state (fst (step env w)) p = state w p \<and> tensors (fst (step env w)) p = tensors w p"
    unfolding step_def by (rule step_groups_frame [OF nd surjective_pairing])
  then show ?thesis
    using assms step_groups_sparse [OF assms, of "param_groups w" env]
    by (simp add: step_param_sparse step_def)
qed

lemma step_params_entry:
  assumes "step_params env g j ps w = (w', res)"
    and "galore g \<noteq> None \<and> j \<le> i \<and> i - j < length ps \<longrightarrow>
           (\<forall>t. p_grad (tensors w (ps ! (i - j))) \<noteq> DenseGrad t)"
  shows "param_ranks w' ! i = param_ranks w ! i
       \<and> current_explained_ratios w' ! i = current_explained_ratios w ! i"
  using assms
proof (induction ps arbitrary: j w)
  case Nil
  then show ?case by simp
next
  case (Cons q ps)
  have idle: "j = i \<Longrightarrow> galore g \<noteq> None \<Longrightarrow> \<forall>t. p_grad (tensors w q) \<noteq> DenseGrad t"
    using Cons.prems(2) by simp
  have same: "param_ranks w1 ! i = param_ranks w ! i
       \<and> current_explained_ratios w1 ! i = current_explained_ratios w ! i"
    if "step_param env g j q w = (w1, r1)" for w1 r1
    using step_param_ranks [OF that] step_param_ratios [OF that] idle
    by (cases "j = i") auto
  from Cons.prems(1) show ?case
  proof (cases rule: step_params_cases)
    case (1 w1 e)
    with same [OF 1(1)] show ?thesis by simp
  next
    case (2 w1)
    have "galore g \<noteq> None \<and> j + 1 \<le> i \<and> i - (j + 1) < length ps \<longrightarrow>
           (\<forall>t. p_grad (tensors w1 (ps ! (i - (j + 1)))) \<noteq> DenseGrad t)"
    proof (intro impI, elim conjE)
      assume a: "galore g \<noteq> None" "j + 1 \<le> i" "i - (j + 1) < length ps"
      then have "i - j = Suc (i - (j + 1))" by arith
      then have "(q # ps) ! (i - j) = ps ! (i - (j + 1))" by simp
      moreover from a have "j \<le> i" "i - j < length (q # ps)" by auto
      ultimately have "\<forall>t. p_grad (tensors w (ps ! (i - (j + 1)))) \<noteq> DenseGrad t"
        using Cons.prems(2) a(1) by metis
      then show "\<forall>t. p_grad (tensors w1 (ps ! (i - (j + 1)))) \<noteq> DenseGrad t"
        by (simp add: step_param_grads [OF 2(1)])
    qed
    from Cons.IH [OF 2(2) this] same [OF 2(1)] show ?thesis by simp
  qed
qed

lemma step_groups_entry:
  assumes "step_groups env gs w = (w', res)"
    and "\<forall>g \<in> set gs. galore g \<noteq> None \<and> i < length (params g) \<longrightarrow>
           (\<forall>t. p_grad (tensors w (params g ! i)) \<noteq> DenseGrad t)"
  shows "param_ranks w' ! i = param_ranks w ! i
       \<and> current_explained_ratios w' ! i = current_explained_ratios w ! i"
  using assms
proof (induction gs arbitrary: w)
  case Nil
  then show ?case by simp
next
  case (Cons g gs)
  have same: "param_ranks w1 ! i = param_ranks w ! i
       \<and> current_explained_ratios w1 ! i = current_explained_ratios w ! i"
    if "step_params env g 0 (params g) w = (w1, r1)" for w1 r1
    using Cons.prems(2) by (intro step_params_entry [OF that]) simp
  from Cons.prems(1) show ?case
  proof (cases rule: step_groups_cases)
    case (1 w1 e)
    with same [OF 1(1)] show ?thesis by simp
  next
    case (2 w1)
    have "\<forall>g \<in> set gs. galore g \<noteq> None \<and> i < length (params g) \<longrightarrow>
           (\<forall>t. p_grad (tensors w1 (params g ! i)) \<noteq> DenseGrad t)"
      using Cons.prems(2) by (simp add: step_params_grads [OF 2(1)])
    from Cons.IH [OF 2(2) this] same [OF 2(1)] show ?thesis by simp
  qed
qed

text \<open>
  C10. The visit of a parameter without gradient changes nothing and raises nothing. A call
  of \<^verbatim>\<open>step\<close> leaves that parameter's tensor and state dictionary unchanged; and when
  \<open>i\<close> is the position of the parameter in every group that has the key \<^verbatim>\<open>"rank"\<close>
  (the tables are indexed by position), the entries \<open>i\<close> of the Rank Table and of the
  Explained-Ratio Table are unchanged as well.
\<close>

theorem absent_gradient_skipped:
  assumes "p_grad (tensors w p) = NoGrad"
  shows "step_param env g j p w = (w, None)
    \<and> state (fst (step env w)) p = state w p
    \<and> tensors (fst (step env w)) p = tensors w p
    \<and> ((\<forall>g \<in> set (param_groups w). galore g \<noteq> None \<and> i < length (params g) \<longrightarrow> params g ! i = p)
         \<longrightarrow> param_ranks (fst (step env w)) ! i = param_ranks w ! i
           \<and> current_explained_ratios (fst (step env w)) ! i = current_explained_ratios w ! i)"
proof -
  have nd: "\<forall>t. p_grad (tensors w p) \<noteq> DenseGrad t" using assms by simp
  have frame: "state (fst (step env w)) p = state w p \<and> tensors (fst (step env w)) p = tensors w p"
    unfolding step_def by (rule step_groups_frame [OF nd surjective_pairing])
  have "param_ranks (fst (step env w)) ! i = param_ranks w ! i
           \<and> current_explained_ratios (fst (step env w)) ! i = current_explained_ratios w ! i"
    if "\<forall>g \<in> set (param_groups w). galore g \<noteq> None \<and> i < length (params g) \<longrightarrow> params g ! i = p"
    unfolding step_def
    using that nd by (intro step_groups_entry [OF surjective_pairing]) auto
  with frame assms show ?thesis
    by (simp add: step_param_none)
qed

section \<open>Instances on the example optimizer\<close>

theorem rank_table_monotone_witness:
  "init demo_tensors [demo_arg] (Fin (1 / 1000)) (Fin (9 / 10), Fin (999 / 1000))
      (Fin (1 / 1000000)) (Fin 0) True = Inr demo
   \<and> (\<exists>gg. find_galore_group (param_groups demo) = Some gg
          \<and> param_ranks demo = replicate (length (params gg)) 2)
   \<and> 2 \<le> param_ranks (fst (step (spectrum_env [Fin 2, Fin 1]) demo)) ! 1"
proof -
  note th = rank_table_monotone
    [where ts = demo_tensors and args = "[demo_arg]" and l = "Fin (1 / 1000)"
       and b = "(Fin (9 / 10), Fin (999 / 1000))" and e = "Fin (1 / 1000000)" and wd = "Fin 0"
       and cb = True and ?w0.0 = demo and w = demo and env = "spectrum_env [Fin 2, Fin 1]"]
  from th init_demo have "\<exists>gg. find_galore_group (param_groups demo) = Some gg
          \<and> param_ranks demo = replicate (length (params gg)) 2"
    by blast
  moreover from th have "\<forall>i < length (param_ranks demo).
      param_ranks demo ! i \<le> param_ranks (fst (step (spectrum_env [Fin 2, Fin 1]) demo)) ! i"
    by blast
  then have "2 \<le> param_ranks (fst (step (spectrum_env [Fin 2, Fin 1]) demo)) ! 1"
    by (auto simp: demo_def dest: spec [of _ 1])
  ultimately show ?thesis using init_demo by simp
qed

theorem sparse_gradient_rejected_witness:
  "p_grad (tensors demo 2) = SparseGrad
   \<and> step_param (spectrum_env [Fin 2, Fin 1]) demo_group 2 2 demo
       = (demo, Some (RuntimeError ''Adam does not support sparse gradients''))
   \<and> snd (step (spectrum_env [Fin 2, Fin 1]) demo) \<noteq> None
   \<and> state (fst (step (spectrum_env [Fin 2, Fin 1]) demo)) 2 = state demo 2
   \<and> tensors (fst (step (spectrum_env [Fin 2, Fin 1]) demo)) 2 = tensors demo 2"
proof -
  have sp: "p_grad (tensors demo 2) = SparseGrad"
    by (simp add: demo_def demo_tensors_def)
  have mem: "2 \<in> set (concat (map params (param_groups demo)))"
    by (simp add: demo_def demo_group_def)
  from sparse_gradient_rejected [OF sp, of "spectrum_env [Fin 2, Fin 1]" demo_group 2] sp mem
  show ?thesis by simp
qed

theorem absent_gradient_skipped_witness:
  "p_grad (tensors demo 0) = NoGrad
   \<and> step_param (spectrum_env [Fin 2, Fin 1]) demo_group 0 0 demo = (demo, None)
   \<and> state (fst (step (spectrum_env [Fin 2, Fin 1]) demo)) 0 = state demo 0
   \<and> tensors (fst (step (spectrum_env [Fin 2, Fin 1]) demo)) 0 = tensors demo 0
   \<and> param_ranks (fst (step (spectrum_env [Fin 2, Fin 1]) demo)) ! 0 = 2
   \<and> current_explained_ratios (fst (step (spectrum_env [Fin 2, Fin 1]) demo)) ! 0 = Fin 0"
proof -
  have no: "p_grad (tensors demo 0) = NoGrad"
    by (simp add: demo_def demo_tensors_def)
  have at0: "\<forall>g \<in> set (param_groups demo).
      galore g \<noteq> None \<and> 0 < length (params g) \<longrightarrow> params g ! 0 = 0"
    by (simp add: demo_def demo_group_def)
  from absent_gradient_skipped [OF no, of "spectrum_env [Fin 2, Fin 1]" demo_group 0 0] no at0
  show ?thesis by (simp add: demo_def)
qed

section \<open>Padding and reconciliation\<close>

lemma idx_lt: "i < n \<Longrightarrow> j < b \<Longrightarrow> i * b + j < n * (b::nat)"
proof -
  assume a: "i < n" "j < b"
  then have "i * b + j < Suc i * b" by simp
  also from a have "Suc i * b \<le> n * b" by (intro mult_le_mono1) simp
  finally show ?thesis .
qed

lemma idx_ge: "a \<le> i \<Longrightarrow> a * b \<le> i * b + (j::nat)"
  by (simp add: trans_le_add1)

lemma div_row: "j < n \<Longrightarrow> (i * n + j) div n = (i::nat)"
  by (metis add.commute div_less div_mult_self3 add.right_neutral less_nat_zero_code neq0_conv)

lemma mod_row: "j < n \<Longrightarrow> (i * n + j) mod n = (j::nat)"
  by (metis add.commute mod_less mod_mult_self3)

lemma pad_second_last_2d:
  assumes "shape t = [a, b]"
  shows "\<exists>t'. pad_second_last d t = Inr t' \<and> shape t' = [a + d, b]
          \<and> (\<forall>i j. i < a + d \<and> j < b \<longrightarrow> at2 t' i j = (if i < a then at2 t i j else Fin 0))"
proof -
  let ?f = "\<lambda>j. if j mod ((a + d) * b) < a * b
                 then data t ! (j div ((a + d) * b) * (a * b) + j mod ((a + d) * b))
                 else Fin 0"
  let ?t' = "\<lparr>shape = [a + d, b], data = map ?f [0..<(a + d) * b]\<rparr>"
  have eq: "pad_second_last d t = Inr ?t'"
    using assms by (simp add: pad_second_last_def)
  have "at2 ?t' i j = (if i < a then at2 t i j else Fin 0)" if "i < a + d" "j < b" for i j
  proof -
    from that have k: "i * b + j < (a + d) * b" by (rule idx_lt)
    have "i < a \<longleftrightarrow> i * b + j < a * b"
    proof
      assume "i < a" then show "i * b + j < a * b" using that(2) by (rule idx_lt)
    next
      assume lt: "i * b + j < a * b"
      show "i < a"
      proof (rule ccontr)
        assume "\<not> i < a"
        then have "a * b \<le> i * b + j" by (intro idx_ge) simp
        with lt show False by simp
      qed
    qed
    with k show ?thesis
      using assms by (simp add: at2_def)
  qed
  with eq show ?thesis by (intro exI [of _ ?t']) simp
qed

lemma pad_last_2d:
  assumes "shape t = [a, b]" "0 < d"
  shows "\<exists>t'. pad_last d t = Inr t' \<and> shape t' = [a, b + d]
          \<and> (\<forall>i j. i < a \<and> j < b + d \<longrightarrow> at2 t' i j = (if j < b then at2 t i j else Fin 0))"
proof -
  let ?f = "\<lambda>j. if j mod (b + d) < b then data t ! (j div (b + d) * b + j mod (b + d)) else Fin 0"
  let ?t' = "\<lparr>shape = [a, b + d], data = map ?f [0..<a * (b + d)]\<rparr>"
  have eq: "pad_last d t = Inr ?t'"
    using assms by (simp add: pad_last_def)
  have "at2 ?t' i j = (if j < b then at2 t i j else Fin 0)" if "i < a" "j < b + d" for i j
  proof -
    from that have k: "i * (b + d) + j < a * (b + d)" by (rule idx_lt)
    from that(2) have "(i * (b + d) + j) div (b + d) = i" "(i * (b + d) + j) mod (b + d) = j"
      by (rule div_row, rule mod_row)
    with k show ?thesis
      using assms by (simp add: at2_def)
  qed
  with eq show ?thesis by (intro exI [of _ ?t']) simp
qed

text \<open>
  Reconciliation of two-axis buffers of one shape against a gradient with at least two
  axes: it succeeds, the size along the rank dimension becomes the larger of the old size
  and the rank, the other axis is kept, old entries stay where they were and the new ones
  are zero.
\<close>

lemma reconcile_2d:
  assumes "shape grad = g0 # g1 # gs" "shape ea = [a, b]" "shape es = [a, b]"
  shows "\<exists>ea' es'. reconcile (Some r) grad (Some (ea, es)) = Inr (ea', es')
     \<and> shape ea' = (if g0 < g1 then [max a r, b] else [a, max b r])
     \<and> shape es' = shape ea'
     \<and> (\<forall>i j. i < shape ea' ! 0 \<and> j < shape ea' ! 1 \<longrightarrow>
           at2 ea' i j = (if i < a \<and> j < b then at2 ea i j else Fin 0)
         \<and> at2 es' i j = (if i < a \<and> j < b then at2 es i j else Fin 0))"
proof (cases "g0 < g1")
  case rows: True
  show ?thesis
  proof (cases "a < r")
    case True
    from pad_second_last_2d [OF assms(2), of "r - a"] obtain ea' where
      ea': "pad_second_last (r - a) ea = Inr ea'" "shape ea' = [a + (r - a), b]"
        "\<forall>i j. i < a + (r - a) \<and> j < b \<longrightarrow> at2 ea' i j = (if i < a then at2 ea i j else Fin 0)"
      by blast
    from pad_second_last_2d [OF assms(3), of "r - a"] obtain es' where
      es': "pad_second_last (r - a) es = Inr es'" "shape es' = [a + (r - a), b]"
        "\<forall>i j. i < a + (r - a) \<and> j < b \<longrightarrow> at2 es' i j = (if i < a then at2 es i j else Fin 0)"
      by blast
    have "reconcile (Some r) grad (Some (ea, es)) = Inr (ea', es')"
      using assms rows True ea'(1) es'(1) by (simp add: reconcile_def size_dim_def)
    with ea' es' rows True show ?thesis
      by (intro exI [of _ ea'] exI [of _ es']) (simp add: max_def)
  next
    case False
    then have "reconcile (Some r) grad (Some (ea, es)) = Inr (ea, es)"
      using assms rows by (simp add: reconcile_def size_dim_def)
    with False rows assms show ?thesis
      by (intro exI [of _ ea] exI [of _ es]) (simp add: max_def)
  qed
next
  case cols: False
  show ?thesis
  proof (cases "b < r")
    case True
    then have pos: "0 < r - b" by simp
    from pad_last_2d [OF assms(2) pos] obtain ea' where
      ea': "pad_last (r - b) ea = Inr ea'" "shape ea' = [a, b + (r - b)]"
        "\<forall>i j. i < a \<and> j < b + (r - b) \<longrightarrow> at2 ea' i j = (if j < b then at2 ea i j else Fin 0)"
      by blast
    from pad_last_2d [OF assms(3) pos] obtain es' where
      es': "pad_last (r - b) es = Inr es'" "shape es' = [a, b + (r - b)]"
        "\<forall>i j. i < a \<and> j < b + (r - b) \<longrightarrow> at2 es' i j = (if j < b then at2 es i j else Fin 0)"
      by blast
    have "reconcile (Some r) grad (Some (ea, es)) = Inr (ea', es')"
      using assms cols True ea'(1) es'(1) by (simp add: reconcile_def size_dim_def)
    with ea' es' cols True show ?thesis
      by (intro exI [of _ ea'] exI [of _ es']) (simp add: max_def)
  next
    case False
    then have "reconcile (Some r) grad (Some (ea, es)) = Inr (ea, es)"
      using assms cols by (simp add: reconcile_def size_dim_def)
    with False cols assms show ?thesis
      by (intro exI [of _ ea] exI [of _ es]) (simp add: max_def)
  qed
qed

lemma reconcile_no_growth:
  assumes "shape grad = g0 # g1 # gs"
    and "(if g0 < g1 then 0 else 1) < length (shape ea)"
    and "r \<le> shape ea ! (if g0 < g1 then 0 else 1)"
  shows "reconcile (Some r) grad (Some (ea, es)) = Inr (ea, es)"
  using assms by (auto simp: reconcile_def size_dim_def)

lemma reconcile_few_axes:
  assumes "length (shape grad) < 2"
  shows "\<exists>e. reconcile (Some r) grad (Some m) = Inl (e, Some m)"
proof (cases "shape grad")
  case Nil
  then show ?thesis by (cases m) (simp add: reconcile_def size_dim_def)
next
  case (Cons g0 rest)
  with assms have "rest = []" by simp
  with Cons show ?thesis by (cases m) (simp add: reconcile_def size_dim_def)
qed

lemma reconcile_plain: "reconcile None grad (Some m) = Inr m"
  by (cases m) (simp add: reconcile_def)

lemma reconcile_alloc: "reconcile rank_opt grad None = Inr (zeros_like grad, zeros_like grad)"
  by (simp add: reconcile_def)

text \<open>
  C4. When the buffers have two axes and the same shape, and the rank exceeds their size
  along the rank dimension (axis 0 when the projected gradient has fewer rows than
  columns, axis 1 otherwise), reconciliation succeeds; both buffers get the rank as their
  size along that axis and keep the other axis; every entry that existed keeps its value
  at its row and column, and every other entry is zero.
\<close>

theorem padding_keeps_history:
  assumes "shape grad = g0 # g1 # gs" "shape exp_avg = [a, b]" "shape exp_avg_sq = [a, b]"
    and "(if g0 < g1 then a else b) < r"
  shows "\<exists>ea' es'. reconcile (Some r) grad (Some (exp_avg, exp_avg_sq)) = Inr (ea', es')
     \<and> shape ea' = (if g0 < g1 then [r, b] else [a, r]) \<and> shape es' = shape ea'
     \<and> (\<forall>i j. i < a \<and> j < b \<longrightarrow>
           at2 ea' i j = at2 exp_avg i j \<and> at2 es' i j = at2 exp_avg_sq i j)
     \<and> (\<forall>i j. i < shape ea' ! 0 \<and> j < shape ea' ! 1 \<and> \<not> (i < a \<and> j < b) \<longrightarrow>
           at2 ea' i j = Fin 0 \<and> at2 es' i j = Fin 0)"
proof -
  from reconcile_2d [OF assms(1-3), of r] obtain ea' es' where
    rec: "reconcile (Some r) grad (Some (exp_avg, exp_avg_sq)) = Inr (ea', es')"
    and sh: "shape ea' = (if g0 < g1 then [max a r, b] else [a, max b r])" "shape es' = shape ea'"
    and ent: "\<forall>i j. i < shape ea' ! 0 \<and> j < shape ea' ! 1 \<longrightarrow>
           at2 ea' i j = (if i < a \<and> j < b then at2 exp_avg i j else Fin 0)
         \<and> at2 es' i j = (if i < a \<and> j < b then at2 exp_avg_sq i j else Fin 0)"
    by blast
  from sh(1) assms(4) have sh': "shape ea' = (if g0 < g1 then [r, b] else [a, r])"
    by (cases "g0 < g1") (simp_all add: max_def)
  have old: "at2 ea' i j = at2 exp_avg i j \<and> at2 es' i j = at2 exp_avg_sq i j"
    if "i < a" "j < b" for i j
  proof -
    from that sh' assms(4) have "i < shape ea' ! 0 \<and> j < shape ea' ! 1"
      by (auto split: if_splits)
    with ent that show ?thesis by simp
  qed
  from rec sh' sh(2) old ent show ?thesis
    by (intro exI [of _ ea'] exI [of _ es']) simp
qed

text \<open>
  C5. For existing buffers with two axes and a rank that does not exceed the smaller of
  them (and for a group without rank), reconciliation leaves the stored buffers exactly
  as they were, whatever the gradient; so running it twice stores what running it once
  stores.
\<close>

theorem reconcile_idempotent:
  assumes "shape exp_avg = [a, b]" and "\<forall>r. rank_opt = Some r \<longrightarrow> r \<le> min a b"
  shows "stored_moments rank_opt grad (Some (exp_avg, exp_avg_sq)) = Some (exp_avg, exp_avg_sq)
       \<and> stored_moments rank_opt grad (stored_moments rank_opt grad (Some (exp_avg, exp_avg_sq)))
           = stored_moments rank_opt grad (Some (exp_avg, exp_avg_sq))"
proof -
  have once: "stored_moments rank_opt grad (Some (exp_avg, exp_avg_sq)) = Some (exp_avg, exp_avg_sq)"
  proof (cases rank_opt)
    case None
    then show ?thesis by (simp add: stored_moments_def reconcile_plain)
  next
    case (Some r)
    with assms(2) have r: "r \<le> a" "r \<le> b" by simp_all
    show ?thesis
    proof (cases "length (shape grad) < 2")
      case True
      from reconcile_few_axes [OF this, of r "(exp_avg, exp_avg_sq)"] Some show ?thesis
        by (auto simp: stored_moments_def)
    next
      case False
      then obtain g0 g1 gs where sh: "shape grad = g0 # g1 # gs"
        by (cases "shape grad"; cases "tl (shape grad)") auto
      have "reconcile (Some r) grad (Some (exp_avg, exp_avg_sq)) = Inr (exp_avg, exp_avg_sq)"
        using assms(1) r by (intro reconcile_no_growth [OF sh]) auto
      with Some show ?thesis by (simp add: stored_moments_def)
    qed
  qed
  then show ?thesis by simp
qed


lemma reconcile_grown:
  "reconcile (Some 3) grown_grad (Some (old_exp_avg, old_exp_avg_sq))
     = Inr (\<lparr>shape = [3, 4],
             data = [Fin 1, Fin 2, Fin 3, Fin 4, Fin 5, Fin 6, Fin 7, Fin 8,
                     Fin 0, Fin 0, Fin 0, Fin 0]\<rparr>,
            \<lparr>shape = [3, 4],
             data = [Fin 1, Fin 4, Fin 9, Fin 16, Fin 25, Fin 36, Fin 49, Fin 64,
                     Fin 0, Fin 0, Fin 0, Fin 0]\<rparr>)"
  by (simp add: reconcile_def size_dim_def grown_grad_def old_exp_avg_def old_exp_avg_sq_def
      pad_second_last_def upt_rec)

theorem padding_keeps_history_witness:
  "reconcile (Some 3) grown_grad (Some (old_exp_avg, old_exp_avg_sq))
     = Inr (\<lparr>shape = [3, 4],
             data = [Fin 1, Fin 2, Fin 3, Fin 4, Fin 5, Fin 6, Fin 7, Fin 8,
                     Fin 0, Fin 0, Fin 0, Fin 0]\<rparr>,
            \<lparr>shape = [3, 4],
             data = [Fin 1, Fin 4, Fin 9, Fin 16, Fin 25, Fin 36, Fin 49, Fin 64,
                     Fin 0, Fin 0, Fin 0, Fin 0]\<rparr>)
   \<and> at2 \<lparr>shape = [3, 4],
           data = [Fin 1, Fin 2, Fin 3, Fin 4, Fin 5, Fin 6, Fin 7, Fin 8,
                   Fin 0, Fin 0, Fin 0, Fin 0]\<rparr> 1 2 = at2 old_exp_avg 1 2
   \<and> at2 \<lparr>shape = [3, 4],
           data = [Fin 1, Fin 4, Fin 9, Fin 16, Fin 25, Fin 36, Fin 49, Fin 64,
                   Fin 0, Fin 0, Fin 0, Fin 0]\<rparr> 2 1 = Fin 0"
proof -
  let ?a' = "\<lparr>shape = [3, 4],
             data = [Fin 1, Fin 2, Fin 3, Fin 4, Fin 5, Fin 6, Fin 7, Fin 8,
                     Fin 0, Fin 0, Fin 0, Fin 0]\<rparr>"
  let ?s' = "\<lparr>shape = [3, 4],
             data = [Fin 1, Fin 4, Fin 9, Fin 16, Fin 25, Fin 36, Fin 49, Fin 64,
                     Fin 0, Fin 0, Fin 0, Fin 0]\<rparr>"
  have sh: "shape grown_grad = 3 # 4 # []" "shape old_exp_avg = [2, 4]"
    "shape old_exp_avg_sq = [2, 4]" "(if (3::nat) < 4 then 2 else 4) < (3::nat)"
    by (simp_all add: grown_grad_def old_exp_avg_def old_exp_avg_sq_def)
  from padding_keeps_history [OF sh] obtain ea' es' where
    rec: "reconcile (Some 3) grown_grad (Some (old_exp_avg, old_exp_avg_sq)) = Inr (ea', es')"
    and keep: "\<forall>i j. i < 2 \<and> j < 4 \<longrightarrow>
           at2 ea' i j = at2 old_exp_avg i j \<and> at2 es' i j = at2 old_exp_avg_sq i j"
    and new: "\<forall>i j. i < shape ea' ! 0 \<and> j < shape ea' ! 1 \<and> \<not> (i < 2 \<and> j < 4) \<longrightarrow>
           at2 ea' i j = Fin 0 \<and> at2 es' i j = Fin 0"
    by blast
  from rec reconcile_grown have eq: "ea' = ?a'" "es' = ?s'" by simp_all
  from keep have "at2 ea' 1 2 = at2 old_exp_avg 1 2" by simp
  moreover from new eq have "at2 es' 2 1 = Fin 0" by simp
  ultimately show ?thesis using eq reconcile_grown by simp
qed

theorem reconcile_idempotent_witness:
  "stored_moments (Some 2) grown_grad (Some (old_exp_avg, old_exp_avg_sq))
     = Some (old_exp_avg, old_exp_avg_sq)
   \<and> stored_moments (Some 2) grown_grad
        (stored_moments (Some 2) grown_grad (Some (old_exp_avg, old_exp_avg_sq)))
     = stored_moments (Some 2) grown_grad (Some (old_exp_avg, old_exp_avg_sq))"
proof -
  have sh: "shape old_exp_avg = [2, 4]" by (simp add: old_exp_avg_def)
  have r: "\<forall>r. Some (2::nat) = Some r \<longrightarrow> r \<le> min 2 4" by simp
  from reconcile_idempotent [OF sh r] show ?thesis .
qed

section \<open>Buffer shapes after a visit\<close>

lemma inplace_Inr:
  "inplace f t g = Inr t' \<Longrightarrow>
     shape t' = shape t \<and> broadcast_shapes (shape t) (shape g) = Some (shape t)"
  by (auto simp: inplace_def split: if_splits)

lemma broadcast_2d:
  assumes "broadcast_shapes [a, b] [c, d] = Some [a, b]"
  shows "(c = a \<or> c = 1) \<and> (d = b \<or> d = 1)"
  using assms by (auto simp: broadcast_shapes_def split: if_splits)

lemma update_phase_success:
  assumes "update_phase env g pr_opt y (ea, es) v = (v', None)"
  shows "\<exists>ea2 es2. st_moments (v_state v') = Some (ea2, es2)
     \<and> shape ea2 = shape ea \<and> shape es2 = shape es
     \<and> broadcast_shapes (shape ea) (shape y) = Some (shape ea)
     \<and> v_ranks v' = v_ranks v"
  using assms
  by (auto simp: update_phase_def Let_def put_moments_def add_alpha_def addcmul_def mul_scalar_def
      split: sum.splits option.splits dest!: inplace_Inr)

lemma galore_phase_success:
  assumes "galore_phase env cfg i grad v = (v1, Inr (y, pr))"
  shows "i < length (v_ranks v1) \<and> v_ranks v ! i \<le> v_ranks v1 ! i
     \<and> st_moments (v_state v1) = st_moments (v_state v)
     \<and> (\<exists>pr0 t obj. project env pr0 grad t = Inr (y, obj) \<and> proj_rank pr0 = v_ranks v1 ! i)"
  using assms
  apply (auto simp: galore_phase_def Let_def split: sum.splits if_splits prod.splits option.splits
      dest: estimate_rank_ge)
    apply (metis projector.select_convs(1))
   apply (metis projector.select_convs(1))
  apply metis
  done

lemma moments_phase_success:
  assumes "moments_phase env g rank_opt pr_opt y v = (v', None)"
  shows "\<exists>ea es ea2 es2. reconcile rank_opt y (st_moments (v_state v)) = Inr (ea, es)
     \<and> st_moments (v_state v') = Some (ea2, es2)
     \<and> shape ea2 = shape ea \<and> shape es2 = shape es
     \<and> broadcast_shapes (shape ea) (shape y) = Some (shape ea)
     \<and> v_ranks v' = v_ranks v"
  using assms
  by (auto simp: moments_phase_def put_moments_def split: sum.splits prod.splits
      dest!: update_phase_success)

lemma visit_galore_success:
  assumes "visit env g i grad v0 = (v', None)" "galore g = Some cfg"
  shows "\<exists>v1 y pr. galore_phase env cfg i grad (v0\<lparr>v_state := init_step (v_state v0)\<rparr>) = (v1, Inr (y, pr))
      \<and> moments_phase env g (Some (v_ranks v1 ! i)) (Some pr) y v1 = (v', None)"
  using assms
  by (auto simp: visit_def Let_def split: prod.splits sum.splits)

lemma init_step_moments: "st_moments (init_step st) = st_moments st"
  by (simp add: init_step_def split: option.splits)

text \<open>
  C3, amended. Take a visit of a parameter of a projection group that completes normally,
  in a state where the parameter's rank is at least 2 and its buffers, if any, have two
  axes and one shape; and let the projector respect its rank: whatever it returns for
  this gradient at the parameter's new rank has two axes, the smaller of size that rank.
  Then afterwards both buffers have two axes and one shape, the smaller axis is at least
  the parameter's rank, and no axis is smaller than it was.
\<close>

theorem buffers_cover_rank:
  assumes run: "step_param env g i p w = (w', None)"
    and dense: "p_grad (tensors w p) = DenseGrad grad"
    and gal: "galore g = Some cfg"
    and contract: "\<forall>pr t y obj. proj_rank pr = param_ranks w' ! i
                     \<and> project env pr grad t = Inr (y, obj) \<longrightarrow>
                     (\<exists>a b. shape y = [a, b] \<and> min a b = proj_rank pr)"
    and rank2: "2 \<le> param_ranks w ! i"
    and inv: "\<forall>ea es. st_moments (state w p) = Some (ea, es) \<longrightarrow>
                (\<exists>a b. shape ea = [a, b] \<and> shape es = [a, b])"
  shows "\<exists>ea es a b. st_moments (state w' p) = Some (ea, es)
      \<and> shape ea = [a, b] \<and> shape es = [a, b]
      \<and> param_ranks w' ! i \<le> min a b
      \<and> (\<forall>ea0 es0 a0 b0. st_moments (state w p) = Some (ea0, es0) \<and> shape ea0 = [a0, b0]
            \<longrightarrow> a0 \<le> a \<and> b0 \<le> b)"
proof -
  let ?v0 = "\<lparr>v_state = state w p, v_data = p_data (tensors w p),
              v_ranks = param_ranks w, v_ratios = current_explained_ratios w\<rparr>"
  obtain v' where vis: "visit env g i grad ?v0 = (v', None)"
    and st': "state w' p = v_state v'" and rk': "param_ranks w' = v_ranks v'"
    using run dense by (auto simp: step_param_def split: prod.splits)
  from visit_galore_success [OF vis gal] obtain v1 y pr where
    gp: "galore_phase env cfg i grad (?v0\<lparr>v_state := init_step (v_state ?v0)\<rparr>) = (v1, Inr (y, pr))"
    and mp: "moments_phase env g (Some (v_ranks v1 ! i)) (Some pr) y v1 = (v', None)"
    by blast
  let ?r = "v_ranks v1 ! i"
  from galore_phase_success [OF gp] obtain pr0 t obj where
    le: "param_ranks w ! i \<le> ?r"
    and m1: "st_moments (v_state v1) = st_moments (state w p)"
    and pj: "project env pr0 grad t = Inr (y, obj)" "proj_rank pr0 = ?r"
    by (auto simp: init_step_moments)
  from moments_phase_success [OF mp] obtain ea es ea2 es2 where
    rec: "reconcile (Some ?r) y (st_moments (state w p)) = Inr (ea, es)"
    and fin: "st_moments (v_state v') = Some (ea2, es2)" "shape ea2 = shape ea" "shape es2 = shape es"
    and bc: "broadcast_shapes (shape ea) (shape y) = Some (shape ea)"
    and rk: "v_ranks v' = v_ranks v1"
    by (auto simp: m1)
  from rk rk' have r': "param_ranks w' ! i = ?r" by simp
  with contract [rule_format, of pr0 t y obj] pj
  have "\<exists>a b. shape y = [a, b] \<and> min a b = proj_rank pr0"
    by simp
  with pj(2) obtain ya yb where y: "shape y = [ya, yb]" "min ya yb = ?r"
    by auto
  have r2: "2 \<le> ?r" using rank2 le by simp
  show ?thesis
  proof (cases "st_moments (state w p)")
    case None
    with rec have "ea = zeros_like y" "es = zeros_like y" by (auto simp: reconcile_alloc)
    then have "shape ea = [ya, yb]" "shape es = [ya, yb]" using y by (simp_all add: zeros_like_def)
    moreover from y(2) have "?r \<le> ya" "?r \<le> yb" by auto
    ultimately show ?thesis using fin None st' r' by simp
  next
    case (Some m0)
    obtain ea0 es0 where m0: "m0 = (ea0, es0)" by (cases m0)
    from inv Some m0 obtain a0 b0 where sh0: "shape ea0 = [a0, b0]" "shape es0 = [a0, b0]"
      by blast
    from reconcile_2d [OF y(1) sh0, of ?r] rec Some m0
    have sh: "shape ea = (if ya < yb then [max a0 ?r, b0] else [a0, max b0 ?r])" "shape es = shape ea"
      by auto
    obtain a b where ab: "shape ea = [a, b]" using sh(1) by (cases "ya < yb") simp_all
    from bc ab y(1) have "broadcast_shapes [a, b] [ya, yb] = Some [a, b]" by simp
    then have bcs: "(ya = a \<or> ya = 1) \<and> (yb = b \<or> yb = 1)"
      by (rule broadcast_2d)
    have grow: "a0 \<le> a \<and> b0 \<le> b" using sh(1) ab by (cases "ya < yb") simp_all
    have "?r \<le> min a b"
    proof (cases "ya < yb")
      case True
      with y(2) have "ya = ?r" by simp
      with True r2 bcs have "yb = b" "?r < yb" by auto
      moreover from True sh(1) ab have "?r \<le> a" by simp
      ultimately show ?thesis by simp
    next
      case False
      with y(2) have "yb = ?r" by (simp add: min_def split: if_splits)
      with False r2 bcs have "ya = a" "?r \<le> ya" by auto
      moreover from False sh(1) ab have "?r \<le> b" by simp
      ultimately show ?thesis by simp
    qed
    with fin ab sh(2) Some m0 sh0 grow st' r' show ?thesis by simp
  qed
qed


section \<open>The one-row gradient, evaluated\<close>

lemma ratio_row: "compute_explained_ratio 2 [Fin 1] = NaN"
  by (simp add: ratio_eval)

lemma rank_growth_row: "rank_growth 2 [Fin 1] = 2"
  by (rule rank_growth_stop) (simp add: ratio_row)

lemma estimate_row: "estimate_rank (spectrum_env [Fin 1]) row_grad 2 = Inr (2, NaN)"
  by (simp add: estimate_rank_def slice_rows_def spectrum_env_def row_grad_def rank_growth_row
      ratio_row)

lemma galore_phase_row:
  "galore_phase (spectrum_env [Fin 1]) demo_cfg 0 row_grad
     \<lparr>v_state = init_step empty_state, v_data = row_data, v_ranks = [2], v_ratios = [Fin 0]\<rparr>
   = (row_visit\<lparr>v_state := (v_state row_visit)\<lparr>st_moments := None\<rparr>\<rparr>,
      Inr (row_grad, \<lparr>proj_rank = 2, proj_obj = ()\<rparr>))"
  by (simp add: galore_phase_def estimate_row init_step_def empty_state_def get_step_def Let_def
      row_visit_def)
     (simp add: spectrum_env_def)

lemma galore_row: "galore row_group = Some demo_cfg"
  by (simp add: row_group_def)

lemma visit_row:
  "visit (spectrum_env [Fin 1]) row_group 0 row_grad
     \<lparr>v_state = empty_state, v_data = row_data, v_ranks = [2], v_ratios = [Fin 0]\<rparr>
   = update_phase (spectrum_env [Fin 1]) row_group (Some \<lparr>proj_rank = 2, proj_obj = ()\<rparr>)
       row_grad (zeros_like row_grad, zeros_like row_grad) row_visit"
  by (simp add: visit_def galore_row galore_phase_row moments_phase_def reconcile_def
      put_moments_def row_visit_def)

lemma update_row:
  "snd (update_phase (spectrum_env [Fin 1]) row_group (Some \<lparr>proj_rank = 2, proj_obj = ()\<rparr>)
     row_grad (zeros_like row_grad, zeros_like row_grad) row_visit) = None"
  by (simp add: update_phase_def Let_def row_group_def row_grad_def row_data_def row_visit_def
      put_moments_def fl_sub_def step_size_def py_div_def spectrum_env_def get_step_def tensor_eval)

lemma step_row:
  "step (spectrum_env [Fin 1]) row_demo
     = (case update_phase (spectrum_env [Fin 1]) row_group (Some \<lparr>proj_rank = 2, proj_obj = ()\<rparr>)
               row_grad (zeros_like row_grad, zeros_like row_grad) row_visit of
          (v, r) \<Rightarrow>
            (row_demo\<lparr>state := (state row_demo)(0 := v_state v),
                      param_ranks := v_ranks v,
                      current_explained_ratios := v_ratios v,
                      tensors := (tensors row_demo)(0 := (tensors row_demo 0)\<lparr>p_data := v_data v\<rparr>)\<rparr>,
             r))"
proof -
  have params: "params row_group = [0]" by (simp add: row_group_def)
  have "step_param (spectrum_env [Fin 1]) row_group 0 0 row_demo
     = (case update_phase (spectrum_env [Fin 1]) row_group (Some \<lparr>proj_rank = 2, proj_obj = ()\<rparr>)
               row_grad (zeros_like row_grad, zeros_like row_grad) row_visit of
          (v, r) \<Rightarrow>
            (row_demo\<lparr>state := (state row_demo)(0 := v_state v),
                      param_ranks := v_ranks v,
                      current_explained_ratios := v_ratios v,
                      tensors := (tensors row_demo)(0 := (tensors row_demo 0)\<lparr>p_data := v_data v\<rparr>)\<rparr>,
             r))"
    using visit_row by (simp add: step_param_def row_demo_def)
  then show ?thesis
    by (simp add: step_def params row_demo_def split: prod.splits option.splits)
qed

text \<open>
  C3, as stated, fails. The parameter of the projection group has one row and five
  columns, and the projector returns the gradient as it is (a gradient with one row has
  no two directions to keep). The step completes normally. Afterwards both buffers have
  the gradient's shape, 1 by 5, so their smaller axis has size 1, while the Rank Table
  holds 2 for the parameter.
\<close>

theorem one_row_gradient_counterexample:
  "snd (step (spectrum_env [Fin 1]) row_demo) = None
   \<and> map_option (shape \<circ> fst) (st_moments (state (fst (step (spectrum_env [Fin 1]) row_demo)) 0))
       = Some [1, 5]
   \<and> map_option (shape \<circ> snd) (st_moments (state (fst (step (spectrum_env [Fin 1]) row_demo)) 0))
       = Some [1, 5]
   \<and> param_ranks (fst (step (spectrum_env [Fin 1]) row_demo)) = [2]"
proof -
  let ?u = "update_phase (spectrum_env [Fin 1]) row_group (Some \<lparr>proj_rank = 2, proj_obj = ()\<rparr>)
               row_grad (zeros_like row_grad, zeros_like row_grad) row_visit"
  have u: "?u = (fst ?u, None)" using update_row by (simp add: prod_eq_iff)
  from update_phase_success [OF u] obtain ea2 es2 where
    m: "st_moments (v_state (fst ?u)) = Some (ea2, es2)"
      "shape ea2 = shape (zeros_like row_grad)" "shape es2 = shape (zeros_like row_grad)"
    and rk: "v_ranks (fst ?u) = v_ranks row_visit"
    by blast
  have z: "shape (zeros_like row_grad) = [1, 5]" by (simp add: zeros_like_def row_grad_def)
  from m rk z update_row show ?thesis
    by (simp add: step_row case_prod_beta row_visit_def)
qed

section \<open>A second visit of the example parameter, evaluated\<close>

lemma galore_phase_later:
  "galore_phase (spectrum_env [Fin 2, Fin 1]) demo_cfg (Suc 0) demo_grad
     \<lparr>v_state = init_step (v_state later_visit), v_data = demo_data, v_ranks = [2, 2, 2],
      v_ratios = [Fin 0, Fin 0, Fin 0]\<rparr>
   = (later_visit, Inr (demo_grad, \<lparr>proj_rank = 2, proj_obj = ()\<rparr>))"
  by (simp add: galore_phase_def estimate_demo init_step_def get_step_def Let_def
      later_visit_def demo_visit_def)
     (simp add: spectrum_env_def)

lemma reconcile_later:
  "reconcile (Some 2) demo_grad (Some (zeros_like demo_grad, zeros_like demo_grad))
     = Inr (zeros_like demo_grad, zeros_like demo_grad)"
  by (simp add: reconcile_def size_dim_def demo_grad_def zeros_like_def)

lemma visit_later:
  "visit (spectrum_env [Fin 2, Fin 1]) demo_group (Suc 0) demo_grad
     \<lparr>v_state = v_state later_visit, v_data = demo_data, v_ranks = [2, 2, 2],
      v_ratios = [Fin 0, Fin 0, Fin 0]\<rparr>
   = update_phase (spectrum_env [Fin 2, Fin 1]) demo_group (Some \<lparr>proj_rank = 2, proj_obj = ()\<rparr>)
       demo_grad (zeros_like demo_grad, zeros_like demo_grad) later_visit"
proof -
  have r: "v_ranks later_visit ! Suc 0 = 2"
    "st_moments (v_state later_visit) = Some (zeros_like demo_grad, zeros_like demo_grad)"
    "put_moments (Some (zeros_like demo_grad, zeros_like demo_grad)) later_visit = later_visit"
    by (simp_all add: later_visit_def demo_visit_def put_moments_def)
  show ?thesis
    by (simp add: visit_def galore_demo galore_phase_later moments_phase_def r reconcile_later)
qed

lemma update_later:
  "snd (update_phase (spectrum_env [Fin 2, Fin 1]) demo_group (Some \<lparr>proj_rank = 2, proj_obj = ()\<rparr>)
     demo_grad (zeros_like demo_grad, zeros_like demo_grad) later_visit) = None"
  by (simp add: update_phase_def Let_def demo_group_def demo_grad_def demo_data_def demo_visit_def
      later_visit_def put_moments_def fl_sub_def step_size_def py_div_def spectrum_env_def
      get_step_def tensor_eval)

lemma step_param_later:
  "step_param (spectrum_env [Fin 2, Fin 1]) demo_group (Suc 0) (Suc 0) demo_later
     = (case update_phase (spectrum_env [Fin 2, Fin 1]) demo_group
               (Some \<lparr>proj_rank = 2, proj_obj = ()\<rparr>) demo_grad
               (zeros_like demo_grad, zeros_like demo_grad) later_visit of
          (v, r) \<Rightarrow>
            (demo_later\<lparr>state := (state demo_later)(Suc 0 := v_state v),
                        param_ranks := v_ranks v,
                        current_explained_ratios := v_ratios v,
                        tensors := (tensors demo_later)
                          (Suc 0 := (tensors demo_later (Suc 0))\<lparr>p_data := v_data v\<rparr>)\<rparr>,
             r))"
  using visit_later by (simp add: step_param_def demo_later_def demo_def demo_tensors_def)

theorem buffers_cover_rank_witness:
  "snd (step_param (spectrum_env [Fin 2, Fin 1]) demo_group 1 1 demo_later) = None
   \<and> (\<exists>ea es a b.
        st_moments (state (fst (step_param (spectrum_env [Fin 2, Fin 1]) demo_group 1 1 demo_later)) 1)
          = Some (ea, es)
        \<and> shape ea = [a, b] \<and> shape es = [a, b]
        \<and> param_ranks (fst (step_param (spectrum_env [Fin 2, Fin 1]) demo_group 1 1 demo_later)) ! 1
            \<le> min a b
        \<and> 2 \<le> a \<and> 3 \<le> b)"
proof -
  let ?env = "spectrum_env [Fin 2, Fin 1]"
  let ?run = "step_param ?env demo_group 1 1 demo_later"
  let ?u = "update_phase ?env demo_group (Some \<lparr>proj_rank = 2, proj_obj = ()\<rparr>) demo_grad
              (zeros_like demo_grad, zeros_like demo_grad) later_visit"
  have ok: "snd ?run = None"
    using update_later by (simp add: step_param_later case_prod_beta)
  then have run: "?run = (fst ?run, None)" by (simp add: prod_eq_iff)
  have "v_ranks (fst ?u) = v_ranks later_visit"
    using update_phase_tables [of ?env demo_group _ demo_grad _ later_visit "fst ?u" "snd ?u"]
    by simp
  then have ranks: "param_ranks (fst ?run) = [2, 2, 2]"
    by (simp add: step_param_later case_prod_beta later_visit_def demo_visit_def)
  have dense: "p_grad (tensors demo_later 1) = DenseGrad demo_grad"
    by (simp add: demo_later_def demo_def demo_tensors_def)
  have contract: "\<forall>pr t y obj. proj_rank pr = param_ranks (fst ?run) ! 1
                     \<and> project ?env pr demo_grad t = Inr (y, obj) \<longrightarrow>
                     (\<exists>a b. shape y = [a, b] \<and> min a b = proj_rank pr)"
    using ranks by (auto simp: spectrum_env_def demo_grad_def)
  have rank2: "2 \<le> param_ranks demo_later ! 1"
    by (simp add: demo_later_def demo_def)
  have old: "st_moments (state demo_later 1) = Some (zeros_like demo_grad, zeros_like demo_grad)"
    "shape (zeros_like demo_grad) = [2, 3]"
    by (simp_all add: demo_later_def later_visit_def demo_visit_def zeros_like_def demo_grad_def)
  then have inv: "\<forall>ea es. st_moments (state demo_later 1) = Some (ea, es) \<longrightarrow>
                (\<exists>a b. shape ea = [a, b] \<and> shape es = [a, b])"
    by auto
  from buffers_cover_rank [OF run dense galore_demo contract rank2 inv] old ok
  show ?thesis by fastforce
qed

end
